theory Spec2Isabelle
  imports Complex_Main
begin

section \<open>GridX dashboard: signal generation and threshold alerting\<close>

text \<open>
  The embedding follows the converter-aware script (the second source file, with the
  DC-DC converter analytics); where the baseline script \<open>script.js\<close> differs, its
  variant is modelled next to it under a name ending in \<open>_baseline\<close>.

  JavaScript numbers are modelled as exact reals: IEEE rounding, NaN and the infinities
  are not part of the model. \<open>Math.random()\<close>, \<open>Date.now()\<close> and \<open>new Date()\<close> are
  inputs of the functions that call them, in the order of the calls.
\<close>

subsection \<open>Configuration\<close>

record range =
  range_min :: real
  range_max :: real

record config =
  UPDATE_INTERVAL :: nat
  MAX_DATA_POINTS :: nat
  GENERATION_RANGE :: range
  CONSUMPTION_RANGE :: range
  BATTERY_RANGE :: range
  INPUT_VOLTAGE_RANGE :: range
  OUTPUT_VOLTAGE_RANGE :: range
  INPUT_CURRENT_RANGE :: range
  OUTPUT_CURRENT_RANGE :: range
  EFFICIENCY_RANGE :: range
  DUTY_CYCLE_RANGE :: range

definition CONFIG :: config where
  "CONFIG = \<lparr>
     UPDATE_INTERVAL = 5000,
     MAX_DATA_POINTS = 20,
     GENERATION_RANGE = \<lparr>range_min = 85 / 10, range_max = 152 / 10\<rparr>,
     CONSUMPTION_RANGE = \<lparr>range_min = 68 / 10, range_max = 125 / 10\<rparr>,
     BATTERY_RANGE = \<lparr>range_min = 45, range_max = 95\<rparr>,
     INPUT_VOLTAGE_RANGE = \<lparr>range_min = 10, range_max = 15\<rparr>,
     OUTPUT_VOLTAGE_RANGE = \<lparr>range_min = 20, range_max = 28\<rparr>,
     INPUT_CURRENT_RANGE = \<lparr>range_min = 1, range_max = 4\<rparr>,
     OUTPUT_CURRENT_RANGE = \<lparr>range_min = 8 / 10, range_max = 25 / 10\<rparr>,
     EFFICIENCY_RANGE = \<lparr>range_min = 85, range_max = 96\<rparr>,
     DUTY_CYCLE_RANGE = \<lparr>range_min = 40, range_max = 65\<rparr>\<rparr>"

subsection \<open>Readings\<close>

record ConverterReading =
  inputVoltage :: real
  outputVoltage :: real
  inputCurrent :: real
  outputCurrent :: real
  outputPower :: real
  dutyCycle :: real
  efficiency :: real

record Reading =
  generation :: real
  consumption :: real
  batteryLevel :: int
  timestamp :: int
  systemEfficiency :: int
  converter :: ConverterReading

text \<open>\<open>Math.round\<close> rounds to the nearest integer, a half towards plus infinity.\<close>

definition Math_round :: "real \<Rightarrow> int" where
  "Math_round x = \<lfloor>x + 1 / 2\<rfloor>"

text \<open>The expression \<open>Math.round(x * 10) / 10\<close> of the returned converter object.\<close>

definition round1 :: "real \<Rightarrow> real" where
  "round1 x = real_of_int (Math_round (x * 10)) / 10"

text \<open>
  The six values \<open>Math.random()\<close> returns during one call of \<open>generateSensorData\<close>,
  named after the quantity each one perturbs, in the order they are drawn.
\<close>

record sensor_draws =
  r_generation :: real
  r_consumption :: real
  r_inputVoltage :: real
  r_outputVoltage :: real
  r_efficiency :: real
  r_systemEfficiency :: real

text \<open>\<open>Math.random()\<close> returns a value in the half-open unit interval.\<close>

definition unit_draw :: "real \<Rightarrow> bool" where
  "unit_draw r = (0 \<le> r \<and> r < 1)"

definition valid_draws :: "sensor_draws \<Rightarrow> bool" where
  "valid_draws d =
     (unit_draw (r_generation d) \<and> unit_draw (r_consumption d) \<and>
      unit_draw (r_inputVoltage d) \<and> unit_draw (r_outputVoltage d) \<and>
      unit_draw (r_efficiency d) \<and> unit_draw (r_systemEfficiency d))"

text \<open>
  \<open>parseInt(storageEl.textContent, 10) || 75\<close>, or 75 when the element is missing: the
  argument is the parsed integer, \<open>None\<close> when there is no element or the text does not
  parse (NaN); a parsed 0 is falsy and also gives 75.
\<close>

definition currentBattery_of :: "int option \<Rightarrow> real" where
  "currentBattery_of stored =
     (case stored of
        None \<Rightarrow> 75
      | Some n \<Rightarrow> if n = 0 then 75 else real_of_int n)"

text \<open>
  \<open>generateSensorData\<close>: \<open>now\<close> is the instant of \<open>new Date()\<close> in milliseconds, \<open>hour\<close>
  is \<open>now.getHours()\<close> in local time, \<open>stored\<close> is the battery level read back from the
  storage card.
\<close>

definition generateSensorData :: "int \<Rightarrow> int \<Rightarrow> int option \<Rightarrow> sensor_draws \<Rightarrow> Reading" where
  "generateSensorData now hour stored d =
    (let generationBase =
           (if hour \<ge> 6 \<and> hour \<le> 18
            then let solarFactor = sin (real_of_int (hour - 6) * pi / 12)
                 in range_min (GENERATION_RANGE CONFIG) +
                    (range_max (GENERATION_RANGE CONFIG) - range_min (GENERATION_RANGE CONFIG)) * solarFactor
            else range_min (GENERATION_RANGE CONFIG));
         generation = generationBase + (r_generation d - 1 / 2) * 2;
         consumptionBase =
           (if hour \<ge> 7 \<and> hour \<le> 22
            then range_min (CONSUMPTION_RANGE CONFIG) +
                 (range_max (CONSUMPTION_RANGE CONFIG) - range_min (CONSUMPTION_RANGE CONFIG)) * (7 / 10)
            else range_min (CONSUMPTION_RANGE CONFIG));
         consumption = consumptionBase + (r_consumption d - 1 / 2) * 2;
         currentBattery = currentBattery_of stored;
         energyBalance = generation - consumption;
         newBatteryLevel0 = currentBattery + energyBalance * 2;
         newBatteryLevel = max (range_min (BATTERY_RANGE CONFIG))
                               (min (range_max (BATTERY_RANGE CONFIG)) newBatteryLevel0);
         inputVoltage = range_min (INPUT_VOLTAGE_RANGE CONFIG) +
           (range_max (INPUT_VOLTAGE_RANGE CONFIG) - range_min (INPUT_VOLTAGE_RANGE CONFIG)) *
           (8 / 10 + r_inputVoltage d * (4 / 10));
         outputVoltage = range_min (OUTPUT_VOLTAGE_RANGE CONFIG) +
           (range_max (OUTPUT_VOLTAGE_RANGE CONFIG) - range_min (OUTPUT_VOLTAGE_RANGE CONFIG)) *
           (7 / 10 + r_outputVoltage d * (3 / 10));
         inputCurrent = range_min (INPUT_CURRENT_RANGE CONFIG) +
           (range_max (INPUT_CURRENT_RANGE CONFIG) - range_min (INPUT_CURRENT_RANGE CONFIG)) *
           (consumption / range_max (CONSUMPTION_RANGE CONFIG));
         outputCurrent = inputCurrent * (inputVoltage / outputVoltage) * (92 / 100);
         outputPower = outputVoltage * outputCurrent;
         dutyCycle = min (range_max (DUTY_CYCLE_RANGE CONFIG))
                         (max (range_min (DUTY_CYCLE_RANGE CONFIG))
                              ((1 - inputVoltage / outputVoltage) * 100));
         baseEfficiency = range_max (EFFICIENCY_RANGE CONFIG);
         loadFactor = outputCurrent / range_max (OUTPUT_CURRENT_RANGE CONFIG);
         optimalLoad = 7 / 10;
         loadEfficiency = 1 - \<bar>loadFactor - optimalLoad\<bar> * (1 / 10);
         converterEfficiency = max (range_min (EFFICIENCY_RANGE CONFIG))
                                   (baseEfficiency * loadEfficiency + (r_efficiency d - 1 / 2) * 2)
     in \<lparr>generation = max 0 generation,
         consumption = max 0 consumption,
         batteryLevel = Math_round newBatteryLevel,
         timestamp = now,
         systemEfficiency = Math_round (92 + r_systemEfficiency d * 6),
         converter = \<lparr>
           inputVoltage = round1 inputVoltage,
           outputVoltage = round1 outputVoltage,
           inputCurrent = round1 inputCurrent,
           outputCurrent = round1 outputCurrent,
           outputPower = round1 outputPower,
           dutyCycle = round1 dutyCycle,
           efficiency = round1 converterEfficiency\<rparr>\<rparr>)"

subsection \<open>Alerts\<close>

text \<open>
  Text built by a template literal or by \<open>+\<close> is kept as the list of its parts; how a
  number or an instant prints is not modelled.
\<close>

datatype text_part =
    Lit string
  | Num real
  | Fixed1 real
  | LocaleDateTime int
  | HourMinute int

type_synonym jstext = "text_part list"

text \<open>The plus-minus sign of two alert descriptions, as its two UTF-8 bytes.\<close>

definition plus_minus :: string where
  "plus_minus = [CHR 0xC2, CHR 0xB1]"

datatype alert_kind = warning | error | info

datatype severity_level = low | medium | high

record AlertDraft =
  draft_type :: alert_kind
  title :: string
  description :: jstext
  severity :: severity_level

text \<open>
  A stored alert. The four descriptive properties come from spreading a draft into the
  object literal; spreading \<open>undefined\<close> copies nothing, which leaves them \<open>None\<close>.
\<close>

record Alert =
  alert_id :: int
  alert_type :: "alert_kind option"
  alert_title :: "string option"
  alert_description :: "jstext option"
  alert_severity :: "severity_level option"
  alert_timestamp :: int

text \<open>The object literal \<open>{ id: i, ...draft, timestamp: t }\<close>.\<close>

definition alert_object :: "int \<Rightarrow> AlertDraft option \<Rightarrow> int \<Rightarrow> Alert" where
  "alert_object i draft t =
     \<lparr>alert_id = i,
      alert_type = map_option draft_type draft,
      alert_title = map_option title draft,
      alert_description = map_option description draft,
      alert_severity = map_option severity draft,
      alert_timestamp = t\<rparr>"

text \<open>The initial value of \<open>systemAlerts\<close>; \<open>t0\<close> is \<open>Date.now()\<close> when the script loads.\<close>

definition initial_systemAlerts :: "int \<Rightarrow> Alert list" where
  "initial_systemAlerts t0 =
     [alert_object 1 (Some \<lparr>draft_type = warning, title = ''DC-DC Converter Efficiency Low'',
        description = [Lit ''Boost converter efficiency has dropped to 89%. Check switching frequency and inductor.''],
        severity = medium\<rparr>) (t0 - 3600000),
      alert_object 2 (Some \<lparr>draft_type = error, title = ''Output Voltage Regulation'',
        description = [Lit (''Output voltage showing fluctuations beyond '' @ plus_minus @ ''2% tolerance.'')],
        severity = high\<rparr>) (t0 - 7200000),
      alert_object 3 (Some \<lparr>draft_type = info, title = ''Duty Cycle Optimization'',
        description = [Lit ''System operating at optimal duty cycle for current load conditions.''],
        severity = low\<rparr>) (t0 - 86400000)]"

text \<open>\<open>dismissAlert\<close> and \<open>clearAlerts\<close>, as functions of \<open>systemAlerts\<close>.\<close>

definition dismissAlert :: "int \<Rightarrow> Alert list \<Rightarrow> Alert list" where
  "dismissAlert alertId systemAlerts = filter (\<lambda>alert. alert_id alert \<noteq> alertId) systemAlerts"

definition clearAlerts :: "Alert list \<Rightarrow> Alert list" where
  "clearAlerts systemAlerts = []"

text \<open>
  The clock readings and the random draw used while one alert object is built:
  \<open>Date.now()\<close> and \<open>Math.random()\<close> for the id, \<open>new Date()\<close> for the timestamp.
\<close>

record stamp_env =
  id_now :: int
  id_draw :: real
  ts_now :: int

subsubsection \<open>Converter threshold alerts\<close>

text \<open>The local array \<open>alerts\<close> of \<open>checkConverterAlerts\<close> after its three checks.\<close>

definition converter_alerts :: "ConverterReading \<Rightarrow> AlertDraft list" where
  "converter_alerts converterData =
    (let alerts0 = [];
         alerts1 =
           (if efficiency converterData < 85
            then alerts0 @ [\<lparr>draft_type = error, title = ''Critical Efficiency Drop'',
                   description = [Lit ''Converter efficiency at '', Num (efficiency converterData),
                                  Lit ''%. Check components.''],
                   severity = high\<rparr>]
            else alerts0);
         targetVoltage = 24;
         voltageTolerance = 48 / 100;
         alerts2 =
           (if \<bar>outputVoltage converterData - targetVoltage\<bar> > voltageTolerance
            then alerts1 @ [\<lparr>draft_type = warning, title = ''Output Voltage Out of Range'',
                   description = [Lit ''Output voltage '', Num (outputVoltage converterData),
                                  Lit (''V outside '' @ plus_minus @ ''2% tolerance.'')],
                   severity = medium\<rparr>]
            else alerts1);
         alerts3 =
           (if dutyCycle converterData > 90
            then alerts2 @ [\<lparr>draft_type = error, title = ''Critical Duty Cycle'',
                   description = [Lit ''Duty cycle at '', Num (dutyCycle converterData),
                                  Lit ''%. Risk of instability.''],
                   severity = high\<rparr>]
            else alerts2)
     in alerts3)"

text \<open>
  The \<open>forEach\<close> of \<open>checkConverterAlerts\<close>: each draft, in order, gets an id and a
  timestamp and is put at the front of \<open>systemAlerts\<close>. \<open>stamps i\<close> is what the clock and
  the random source give while the draft at index \<open>i\<close> is handled.
\<close>

fun add_alerts :: "(nat \<Rightarrow> stamp_env) \<Rightarrow> nat \<Rightarrow> AlertDraft list \<Rightarrow> Alert list \<Rightarrow> Alert list" where
  "add_alerts stamps i [] systemAlerts = systemAlerts"
| "add_alerts stamps i (alert # rest) systemAlerts =
     add_alerts stamps (Suc i) rest
       (alert_object (id_now (stamps i) + \<lfloor>id_draw (stamps i) * 1000\<rfloor>) (Some alert) (ts_now (stamps i))
        # systemAlerts)"

definition checkConverterAlerts :: "(nat \<Rightarrow> stamp_env) \<Rightarrow> ConverterReading \<Rightarrow> Alert list \<Rightarrow> Alert list" where
  "checkConverterAlerts stamps converterData systemAlerts =
     add_alerts stamps 0 (converter_alerts converterData) systemAlerts"

subsubsection \<open>Random alerts\<close>

text \<open>Array indexing: an index outside the array gives \<open>undefined\<close>.\<close>

definition at_index :: "'a list \<Rightarrow> int \<Rightarrow> 'a option" where
  "at_index xs i = (if 0 \<le> i \<and> i < int (length xs) then Some (xs ! nat i) else None)"

definition alertTypes :: "AlertDraft list" where
  "alertTypes =
     [\<lparr>draft_type = warning, title = ''DC-DC Converter Temperature'',
       description = [Lit ''Boost converter operating temperature slightly elevated. Monitor thermal management.''],
       severity = medium\<rparr>,
      \<lparr>draft_type = info, title = ''Optimal Load Condition'',
       description = [Lit ''DC-DC converter operating at peak efficiency range.''],
       severity = low\<rparr>,
      \<lparr>draft_type = error, title = ''Output Voltage Ripple'',
       description = [Lit ''Output voltage ripple exceeding 2%. Check output capacitors.''],
       severity = high\<rparr>,
      \<lparr>draft_type = warning, title = ''Duty Cycle Limit'',
       description = [Lit ''Operating near maximum duty cycle. Consider input voltage regulation.''],
       severity = medium\<rparr>,
      \<lparr>draft_type = info, title = ''Switching Frequency Stable'',
       description = [Lit ''PWM switching frequency maintaining optimal performance.''],
       severity = low\<rparr>,
      \<lparr>draft_type = error, title = ''Input Current Surge'',
       description = [Lit ''Input current spike detected. Check input filtering and protection.''],
       severity = high\<rparr>]"

definition alertTypes_baseline :: "AlertDraft list" where
  "alertTypes_baseline =
     [\<lparr>draft_type = warning, title = ''High Energy Demand'',
       description = [Lit ''Energy consumption is above normal levels for this time of day.''],
       severity = medium\<rparr>,
      \<lparr>draft_type = info, title = ''Weather Update'',
       description = [Lit ''Favorable wind conditions expected for next 6 hours.''],
       severity = low\<rparr>,
      \<lparr>draft_type = error, title = ''Communication Error'',
       description = [Lit ''Lost connection to remote sensor node #3.''],
       severity = high\<rparr>,
      \<lparr>draft_type = warning, title = ''Battery Temperature'',
       description = [Lit ''Battery temperature slightly elevated. Monitoring closely.''],
       severity = medium\<rparr>]"

text \<open>
  The draws and clock readings of one call of \<open>generateRandomAlert\<close>: the chance draw
  of the guard, the draw that picks the template, then those of the alert object.
\<close>

record random_alert_env =
  chance_draw :: real
  pick_draw :: real
  stamp :: stamp_env

definition generateRandomAlert :: "random_alert_env \<Rightarrow> Alert list \<Rightarrow> Alert list" where
  "generateRandomAlert env systemAlerts =
     (if length systemAlerts < 5 \<and> chance_draw env < 8 / 100
      then let randomAlert = at_index alertTypes \<lfloor>pick_draw env * real (length alertTypes)\<rfloor>;
               newAlert = alert_object (id_now (stamp env) + \<lfloor>id_draw (stamp env) * 1000\<rfloor>)
                                   randomAlert (ts_now (stamp env))
           in newAlert # systemAlerts
      else systemAlerts)"

text \<open>The baseline script: four templates, a 10% chance, and the id is \<open>Date.now()\<close> alone.\<close>

definition generateRandomAlert_baseline :: "random_alert_env \<Rightarrow> Alert list \<Rightarrow> Alert list" where
  "generateRandomAlert_baseline env systemAlerts =
     (if length systemAlerts < 5 \<and> chance_draw env < 1 / 10
      then let randomAlert = at_index alertTypes_baseline
                               \<lfloor>pick_draw env * real (length alertTypes_baseline)\<rfloor>;
               newAlert = alert_object (id_now (stamp env)) randomAlert (ts_now (stamp env))
           in newAlert # systemAlerts
      else systemAlerts)"

subsection \<open>Chart data\<close>

record ChartData =
  labels :: "jstext list"
  chart_generation :: "real list"
  chart_consumption :: "real list"

definition initial_chartData :: ChartData where
  "initial_chartData = \<lparr>labels = [], chart_generation = [], chart_consumption = []\<rparr>"

text \<open>
  \<open>updateChartData\<close> reads three properties of its argument: the timestamp, the
  generation and the consumption. \<open>push\<close> appends, \<open>shift\<close> drops the first element
  (and does nothing on an empty array). The function is the same in both scripts.
\<close>

definition shift :: "'a list \<Rightarrow> 'a list" where
  "shift xs = (case xs of [] \<Rightarrow> [] | _ # rest \<Rightarrow> rest)"

definition updateChartData :: "int \<Rightarrow> real \<Rightarrow> real \<Rightarrow> ChartData \<Rightarrow> ChartData" where
  "updateChartData data_timestamp data_generation data_consumption chartData =
    (let timeLabel = [HourMinute data_timestamp];
         pushed = \<lparr>labels = labels chartData @ [timeLabel],
                   chart_generation = chart_generation chartData @ [data_generation],
                   chart_consumption = chart_consumption chartData @ [data_consumption]\<rparr>
     in if length (labels pushed) > MAX_DATA_POINTS CONFIG
        then \<lparr>labels = shift (labels pushed),
              chart_generation = shift (chart_generation pushed),
              chart_consumption = shift (chart_consumption pushed)\<rparr>
        else pushed)"

subsection \<open>The page\<close>

text \<open>
  A property of an ingested payload is \<open>undefined\<close> (absent), \<open>null\<close> or a value.
\<close>

datatype 'a jsval = Undefined | Null | Val 'a

text \<open>
  Of the page the model keeps what carries data: the text content of the elements the
  scripts look up by id (an id outside the domain of \<open>texts\<close> is an element that is
  missing, for which \<open>getElementById\<close> returns \<open>null\<close>), the battery bar, the status
  badge and the two gauges (\<open>None\<close> when the global is still \<open>undefined\<close>). The style
  properties hold what the script last assigned. Transitions, colours of the trend
  arrows, console output, the rendering of the alert list and the redraw of chart and
  gauges are not modelled; the text that \<open>animateMetricValue\<close> sets in a 150 ms
  timer is set at once.
\<close>

record fill_style =
  fill_width :: jstext
  fill_background :: string

record status_badge =
  inactive :: bool
  status_text :: string

record page =
  texts :: "string \<rightharpoonup> jstext"
  batteryFill :: "fill_style option"
  systemStatus :: "status_badge option"
  voltageGauge :: "real jsval option"
  efficiencyGauge :: "real jsval option"

text \<open>Conversions: to a number, to a string in a concatenation, and to text content.\<close>

definition Number_of :: "real jsval \<Rightarrow> real option" where
  "Number_of v = (case v of Undefined \<Rightarrow> None | Null \<Rightarrow> Some 0 | Val x \<Rightarrow> Some x)"

definition toFixed1 :: "real option \<Rightarrow> jstext" where
  "toFixed1 n = (case n of None \<Rightarrow> [Lit ''NaN''] | Some x \<Rightarrow> [Fixed1 x])"

definition string_of :: "real jsval \<Rightarrow> jstext" where
  "string_of v =
     (case v of Undefined \<Rightarrow> [Lit ''undefined''] | Null \<Rightarrow> [Lit ''null''] | Val x \<Rightarrow> [Num x])"

definition textContent_of :: "real jsval \<Rightarrow> jstext" where
  "textContent_of v = (case v of Undefined \<Rightarrow> [] | Null \<Rightarrow> [] | Val x \<Rightarrow> [Num x])"

text \<open>The comparison \<open>v < k\<close>: \<open>null\<close> counts as 0, \<open>undefined\<close> as NaN.\<close>

definition js_less :: "real jsval \<Rightarrow> real \<Rightarrow> bool" where
  "js_less v k = (case v of Undefined \<Rightarrow> False | Null \<Rightarrow> 0 < k | Val x \<Rightarrow> x < k)"

text \<open>\<open>v || d\<close> on numbers: \<open>undefined\<close>, \<open>null\<close> and 0 are falsy.\<close>

definition or_default :: "'a::zero jsval \<Rightarrow> 'a \<Rightarrow> 'a" where
  "or_default v d =
     (case v of Undefined \<Rightarrow> d | Null \<Rightarrow> d | Val x \<Rightarrow> if x = 0 then d else x)"

text \<open>Assigning the text content of the element with a given id, if there is one.\<close>

definition set_textContent :: "string \<Rightarrow> jstext \<Rightarrow> page \<Rightarrow> page" where
  "set_textContent element_id txt pg =
     (if element_id \<in> dom (texts pg) then pg\<lparr>texts := (texts pg)(element_id \<mapsto> txt)\<rparr> else pg)"

definition updateMetricCard :: "string \<Rightarrow> jstext \<Rightarrow> page \<Rightarrow> page" where
  "updateMetricCard type v pg = set_textContent (type @ ''-value'') v pg"

definition animateMetricValue :: "string \<Rightarrow> real jsval \<Rightarrow> page \<Rightarrow> page" where
  "animateMetricValue element_id newValue pg = set_textContent element_id (textContent_of newValue) pg"

definition updateBatteryIndicator :: "real jsval \<Rightarrow> page \<Rightarrow> page" where
  "updateBatteryIndicator level pg =
     (case batteryFill pg of
        None \<Rightarrow> pg
      | Some _ \<Rightarrow>
          pg\<lparr>batteryFill := Some
            \<lparr>fill_width = string_of level @ [Lit ''%''],
             fill_background =
               (if js_less level 20 then ''linear-gradient(90deg, #ef4444, #f87171)''
                else if js_less level 50 then ''linear-gradient(90deg, #f59e0b, #fbbf24)''
                else ''linear-gradient(90deg, #3b82f6, #60a5fa)'')\<rparr>\<rparr>)"

definition updateSystemStatus :: "string jsval \<Rightarrow> page \<Rightarrow> page" where
  "updateSystemStatus status pg =
     (case systemStatus pg of
        None \<Rightarrow> pg
      | Some _ \<Rightarrow>
          if status = Val ''ACTIVE''
          then pg\<lparr>systemStatus := Some \<lparr>inactive = False, status_text = ''ACTIVE''\<rparr>\<rparr>
          else pg\<lparr>systemStatus := Some \<lparr>inactive = True, status_text = ''INACTIVE''\<rparr>\<rparr>)"

definition updateSystemTimestamp :: "int \<Rightarrow> page \<Rightarrow> page" where
  "updateSystemTimestamp clock pg = set_textContent ''system-timestamp'' [LocaleDateTime clock] pg"

record converter_payload =
  p_inputVoltage :: "real jsval"
  p_outputVoltage :: "real jsval"
  p_inputCurrent :: "real jsval"
  p_outputCurrent :: "real jsval"
  p_outputPower :: "real jsval"
  p_dutyCycle :: "real jsval"
  p_efficiency :: "real jsval"

definition updateConverterMetrics :: "converter_payload jsval \<Rightarrow> page \<Rightarrow> page" where
  "updateConverterMetrics converterData pg =
     (case converterData of
        Undefined \<Rightarrow> pg
      | Null \<Rightarrow> pg
      | Val c \<Rightarrow>
         (let pg1 = (if p_inputVoltage c \<noteq> Undefined
                     then animateMetricValue ''input-voltage'' (p_inputVoltage c) pg else pg);
              pg2 = (if p_inputCurrent c \<noteq> Undefined
                     then animateMetricValue ''input-current'' (p_inputCurrent c) pg1 else pg1);
              pg3 = (if p_outputCurrent c \<noteq> Undefined
                     then animateMetricValue ''output-current'' (p_outputCurrent c) pg2 else pg2);
              pg4 = (if p_outputPower c \<noteq> Undefined
                     then animateMetricValue ''output-power'' (p_outputPower c) pg3 else pg3);
              pg5 = (if p_dutyCycle c \<noteq> Undefined
                     then animateMetricValue ''duty-cycle'' (p_dutyCycle c) pg4 else pg4)
          in pg5))"

text \<open>The three arrows of the trend indicator, as their UTF-8 bytes.\<close>

definition arrow_up :: string where
  "arrow_up = [CHR 0xE2, CHR 0x86, CHR 0x97]"

definition arrow_down :: string where
  "arrow_down = [CHR 0xE2, CHR 0x86, CHR 0x98]"

definition arrow_flat :: string where
  "arrow_flat = [CHR 0xE2, CHR 0x86, CHR 0x92]"

text \<open>
  \<open>updateGenerationTrend\<close> reads the last generation value of the chart; an empty
  array gives \<open>undefined\<close> there, and \<open>undefined\<close> and 0 fall back to the current value.
\<close>

definition updateGenerationTrend :: "real \<Rightarrow> real list \<Rightarrow> page \<Rightarrow> page" where
  "updateGenerationTrend currentGeneration generation_series pg =
     (if ''generation-trend'' \<in> dom (texts pg) \<and> ''generation-change'' \<in> dom (texts pg)
      then let prevGeneration =
                 (if generation_series = [] then currentGeneration
                  else if last generation_series = 0 then currentGeneration
                  else last generation_series);
               change = (if prevGeneration = 0 then 0
                         else (currentGeneration - prevGeneration) / prevGeneration * 100)
           in if change > 1 / 100
              then set_textContent ''generation-change'' [Lit ''+'', Fixed1 change, Lit ''%'']
                     (set_textContent ''generation-trend'' [Lit arrow_up] pg)
              else if change < - (1 / 100)
              then set_textContent ''generation-change'' [Fixed1 change, Lit ''%'']
                     (set_textContent ''generation-trend'' [Lit arrow_down] pg)
              else set_textContent ''generation-change'' [Lit ''0.0%'']
                     (set_textContent ''generation-trend'' [Lit arrow_flat] pg)
      else pg)"

subsection \<open>The dashboard state and its updates\<close>

text \<open>The module-level variables \<open>chartData\<close> and \<open>systemAlerts\<close>, and the page.\<close>

record dashboard =
  chartData :: ChartData
  systemAlerts :: "Alert list"
  page :: page

text \<open>
  What one call of \<open>updateDashboard\<close> takes from its environment: the instant and the
  local hour of \<open>new Date()\<close> in \<open>generateSensorData\<close>, what \<open>parseInt\<close> makes of the
  storage card's text (\<open>None\<close> for NaN or a missing element), the six draws, the instant
  read by \<open>updateSystemTimestamp\<close>, and the stamps of the alerts it adds.
\<close>

record tick_env =
  env_now :: int
  env_hour :: int
  env_stored :: "int option"
  env_draws :: sensor_draws
  env_clock :: int
  env_stamps :: "nat \<Rightarrow> stamp_env"

definition payload_of :: "ConverterReading \<Rightarrow> converter_payload" where
  "payload_of c =
     \<lparr>p_inputVoltage = Val (inputVoltage c), p_outputVoltage = Val (outputVoltage c),
      p_inputCurrent = Val (inputCurrent c), p_outputCurrent = Val (outputCurrent c),
      p_outputPower = Val (outputPower c), p_dutyCycle = Val (dutyCycle c),
      p_efficiency = Val (efficiency c)\<rparr>"

definition updateDashboard :: "tick_env \<Rightarrow> dashboard \<Rightarrow> dashboard" where
  "updateDashboard env st =
    (let data = generateSensorData (env_now env) (env_hour env) (env_stored env) (env_draws env);
         pg1 = updateSystemStatus (Val ''ACTIVE'') (page st);
         pg2 = updateSystemTimestamp (env_clock env) pg1;
         pg3 = updateMetricCard ''generation'' [Fixed1 (generation data)] pg2;
         pg4 = updateMetricCard ''consumption'' [Fixed1 (consumption data)] pg3;
         pg5 = updateMetricCard ''storage'' [Num (real_of_int (batteryLevel data))] pg4;
         pg6 = updateBatteryIndicator (Val (real_of_int (batteryLevel data))) pg5;
         pg7 = set_textContent ''efficiency-value''
                 [Num (real_of_int (systemEfficiency data)), Lit ''%''] pg6;
         pg8 = updateGenerationTrend (generation data) (chart_generation (chartData st)) pg7;
         pg9 = updateConverterMetrics (Val (payload_of (converter data))) pg8;
         pg10 = (case voltageGauge pg9 of
                   None \<Rightarrow> pg9
                 | Some _ \<Rightarrow>
                     set_textContent ''voltage-display''
                       [Num (outputVoltage (converter data)), Lit '' V'']
                       (pg9\<lparr>voltageGauge := Some (Val (outputVoltage (converter data)))\<rparr>));
         pg11 = (case efficiencyGauge pg10 of
                   None \<Rightarrow> pg10
                 | Some _ \<Rightarrow>
                     set_textContent ''efficiency-display''
                       [Num (efficiency (converter data)), Lit '' %'']
                       (pg10\<lparr>efficiencyGauge := Some (Val (efficiency (converter data)))\<rparr>))
     in \<lparr>chartData = updateChartData (timestamp data) (generation data) (consumption data)
                        (chartData st),
         systemAlerts = checkConverterAlerts (env_stamps env) (converter data) (systemAlerts st),
         page = pg11\<rparr>)"

text \<open>One period of \<open>startDataUpdates\<close>: \<open>updateDashboard\<close>, then \<open>generateRandomAlert\<close>.\<close>

definition data_tick :: "tick_env \<Rightarrow> random_alert_env \<Rightarrow> dashboard \<Rightarrow> dashboard" where
  "data_tick env renv st =
     (let st1 = updateDashboard env st
      in st1\<lparr>systemAlerts := generateRandomAlert renv (systemAlerts st1)\<rparr>)"

subsubsection \<open>Ingesting an external reading\<close>

record payload =
  data_generation :: "real jsval"
  data_consumption :: "real jsval"
  data_batteryLevel :: "real jsval"
  data_efficiency :: "real jsval"
  data_converter :: "converter_payload jsval"
  data_systemStatus :: "string jsval"
  data_timestamp :: "int jsval"

text \<open>The object \<open>chartDataPoint\<close> built by \<open>updateDashboardWithRealData\<close>.\<close>

record chart_point =
  point_generation :: real
  point_consumption :: real
  point_batteryLevel :: real
  point_timestamp :: int
  point_efficiency :: real

text \<open>\<open>date_now\<close> is what \<open>Date.now()\<close> returns while the point is built.\<close>

definition chartDataPoint :: "int \<Rightarrow> payload \<Rightarrow> chart_point" where
  "chartDataPoint date_now data =
     \<lparr>point_generation = or_default (data_generation data) 0,
      point_consumption = or_default (data_consumption data) 0,
      point_batteryLevel = or_default (data_batteryLevel data) 0,
      point_timestamp = or_default (data_timestamp data) date_now,
      point_efficiency = or_default (data_efficiency data) 95\<rparr>"

text \<open>
  \<open>updateDashboardWithRealData\<close> of the converter-aware script; \<open>clock\<close> is the instant
  read by the final \<open>updateSystemTimestamp\<close>.
\<close>

definition updateDashboardWithRealData :: "int \<Rightarrow> int \<Rightarrow> payload \<Rightarrow> dashboard \<Rightarrow> dashboard" where
  "updateDashboardWithRealData date_now clock data st =
    (let pg1 = (if data_generation data \<noteq> Undefined
                then updateMetricCard ''generation'' (toFixed1 (Number_of (data_generation data))) (page st)
                else page st);
         pg2 = (if data_consumption data \<noteq> Undefined
                then updateMetricCard ''consumption'' (toFixed1 (Number_of (data_consumption data))) pg1
                else pg1);
         pg3 = (if data_batteryLevel data \<noteq> Undefined
                then updateBatteryIndicator (data_batteryLevel data)
                       (updateMetricCard ''storage'' (textContent_of (data_batteryLevel data)) pg2)
                else pg2);
         pg4 = (if data_efficiency data \<noteq> Undefined
                then set_textContent ''efficiency-value''
                       (string_of (data_efficiency data) @ [Lit ''%'']) pg3
                else pg3);
         pg5 = (case data_converter data of
                  Undefined \<Rightarrow> pg4
                | Null \<Rightarrow> pg4
                | Val c \<Rightarrow>
                   (let q1 = updateConverterMetrics (Val c) pg4;
                        q2 = (if p_outputVoltage c \<noteq> Undefined \<and> voltageGauge q1 \<noteq> None
                              then set_textContent ''voltage-display''
                                     (string_of (p_outputVoltage c) @ [Lit '' V''])
                                     (q1\<lparr>voltageGauge := Some (p_outputVoltage c)\<rparr>)
                              else q1);
                        q3 = (if p_efficiency c \<noteq> Undefined \<and> efficiencyGauge q2 \<noteq> None
                              then set_textContent ''efficiency-display''
                                     (string_of (p_efficiency c) @ [Lit '' %''])
                                     (q2\<lparr>efficiencyGauge := Some (p_efficiency c)\<rparr>)
                              else q2)
                    in q3));
         pg6 = (if data_systemStatus data \<noteq> Undefined
                then updateSystemStatus (data_systemStatus data) pg5
                else pg5);
         point = chartDataPoint date_now data;
         chart = updateChartData (point_timestamp point) (point_generation point)
                   (point_consumption point) (chartData st);
         pg7 = updateSystemTimestamp clock pg6
     in st\<lparr>chartData := chart, page := pg7\<rparr>)"

text \<open>
  The baseline script calls \<open>toFixed\<close> on the property itself and assigns to the
  efficiency element without looking whether it exists: both throw a TypeError, which
  leaves the function with the updates made so far.
\<close>

datatype js_error = TypeError

definition updateDashboardWithRealData_baseline ::
    "int \<Rightarrow> payload \<Rightarrow> dashboard \<Rightarrow> (js_error \<times> dashboard) + dashboard" where
  "updateDashboardWithRealData_baseline date_now data st =
    (if data_generation data = Null then Inl (TypeError, st)
     else
      let pg1 = (if data_generation data \<noteq> Undefined
                 then updateMetricCard ''generation'' (toFixed1 (Number_of (data_generation data))) (page st)
                 else page st)
      in if data_consumption data = Null then Inl (TypeError, st\<lparr>page := pg1\<rparr>)
      else
       let pg2 = (if data_consumption data \<noteq> Undefined
                  then updateMetricCard ''consumption'' (toFixed1 (Number_of (data_consumption data))) pg1
                  else pg1);
           pg3 = (if data_batteryLevel data \<noteq> Undefined
                  then updateBatteryIndicator (data_batteryLevel data)
                         (updateMetricCard ''storage'' (textContent_of (data_batteryLevel data)) pg2)
                  else pg2)
       in if data_efficiency data \<noteq> Undefined \<and> ''efficiency-value'' \<notin> dom (texts pg3)
          then Inl (TypeError, st\<lparr>page := pg3\<rparr>)
          else
           let pg4 = (if data_efficiency data \<noteq> Undefined
                      then set_textContent ''efficiency-value''
                             (string_of (data_efficiency data) @ [Lit ''%'']) pg3
                      else pg3);
               point = chartDataPoint date_now data;
               chart = updateChartData (point_timestamp point) (point_generation point)
                         (point_consumption point) (chartData st)
           in Inr (st\<lparr>chartData := chart, page := pg4\<rparr>))"

subsubsection \<open>The blocks of the ingest function\<close>

text \<open>
  The successive \<open>if\<close> blocks of \<open>updateDashboardWithRealData\<close>, each as a function of
  the page; the function is their composition (lemma \<open>page_ingest\<close> below).
\<close>

definition ingest_generation :: "payload \<Rightarrow> page \<Rightarrow> page" where
  "ingest_generation data pg =
     (if data_generation data \<noteq> Undefined
      then updateMetricCard ''generation'' (toFixed1 (Number_of (data_generation data))) pg
      else pg)"

definition ingest_consumption :: "payload \<Rightarrow> page \<Rightarrow> page" where
  "ingest_consumption data pg =
     (if data_consumption data \<noteq> Undefined
      then updateMetricCard ''consumption'' (toFixed1 (Number_of (data_consumption data))) pg
      else pg)"

definition ingest_batteryLevel :: "payload \<Rightarrow> page \<Rightarrow> page" where
  "ingest_batteryLevel data pg =
     (if data_batteryLevel data \<noteq> Undefined
      then updateBatteryIndicator (data_batteryLevel data)
             (updateMetricCard ''storage'' (textContent_of (data_batteryLevel data)) pg)
      else pg)"

definition ingest_efficiency :: "payload \<Rightarrow> page \<Rightarrow> page" where
  "ingest_efficiency data pg =
     (if data_efficiency data \<noteq> Undefined
      then set_textContent ''efficiency-value'' (string_of (data_efficiency data) @ [Lit ''%'']) pg
      else pg)"

definition ingest_converter :: "payload \<Rightarrow> page \<Rightarrow> page" where
  "ingest_converter data pg =
     (case data_converter data of
        Undefined \<Rightarrow> pg
      | Null \<Rightarrow> pg
      | Val c \<Rightarrow>
         (let q1 = updateConverterMetrics (Val c) pg;
              q2 = (if p_outputVoltage c \<noteq> Undefined \<and> voltageGauge q1 \<noteq> None
                    then set_textContent ''voltage-display''
                           (string_of (p_outputVoltage c) @ [Lit '' V''])
                           (q1\<lparr>voltageGauge := Some (p_outputVoltage c)\<rparr>)
                    else q1);
              q3 = (if p_efficiency c \<noteq> Undefined \<and> efficiencyGauge q2 \<noteq> None
                    then set_textContent ''efficiency-display''
                           (string_of (p_efficiency c) @ [Lit '' %''])
                           (q2\<lparr>efficiencyGauge := Some (p_efficiency c)\<rparr>)
                    else q2)
          in q3))"

definition ingest_systemStatus :: "payload \<Rightarrow> page \<Rightarrow> page" where
  "ingest_systemStatus data pg =
     (if data_systemStatus data \<noteq> Undefined
      then updateSystemStatus (data_systemStatus data) pg
      else pg)"

text \<open>
  The property path \<open>data.converter.x\<close> of a payload: absent when the converter object
  itself is missing (\<open>undefined\<close> or \<open>null\<close>, which the script skips as falsy), else what
  the converter object holds.
\<close>

definition converter_field :: "(converter_payload \<Rightarrow> real jsval) \<Rightarrow> payload \<Rightarrow> real jsval" where
  "converter_field f data =
     (case data_converter data of Undefined \<Rightarrow> Undefined | Null \<Rightarrow> Undefined | Val c \<Rightarrow> f c)"

text \<open>The state a call of the baseline ingest function leaves behind, thrown or not.\<close>

definition final_state :: "(js_error \<times> dashboard) + dashboard \<Rightarrow> dashboard" where
  "final_state r = (case r of Inl (e, st) \<Rightarrow> st | Inr st \<Rightarrow> st)"

subsection \<open>Sequences of chart appends\<close>

text \<open>The three properties \<open>updateChartData\<close> reads from its argument.\<close>

record chart_sample =
  sample_timestamp :: int
  sample_generation :: real
  sample_consumption :: real

definition append_points :: "chart_sample list \<Rightarrow> ChartData \<Rightarrow> ChartData" where
  "append_points pts chart =
     foldl (\<lambda>cd p. updateChartData (sample_timestamp p) (sample_generation p) (sample_consumption p) cd)
       chart pts"

subsection \<open>Removal of the first match, as the specification words it\<close>

text \<open>
  The specification describes \<open>removeById\<close> as removing the first alert whose id
  matches. This definition follows those words; \<open>dismissAlert\<close> above follows the code.
\<close>

fun removeFirstById_spec :: "int \<Rightarrow> Alert list \<Rightarrow> Alert list" where
  "removeFirstById_spec i [] = []"
| "removeFirstById_spec i (a # rest) =
     (if alert_id a = i then rest else a # removeFirstById_spec i rest)"

text \<open>The alert object that \<open>checkConverterAlerts\<close> builds for the draft at an index.\<close>

definition stamp_alert :: "(nat \<Rightarrow> stamp_env) \<Rightarrow> nat \<times> AlertDraft \<Rightarrow> Alert" where
  "stamp_alert stamps p =
     alert_object (id_now (stamps (fst p)) + \<lfloor>id_draw (stamps (fst p)) * 1000\<rfloor>)
       (Some (snd p)) (ts_now (stamps (fst p)))"

subsection \<open>The unrounded converter values\<close>

text \<open>
  The local constants of \<open>generateSensorData\<close> that feed the converter object, before
  they are rounded: each is the source expression of the constant of the same name.
\<close>

definition raw_consumption :: "int \<Rightarrow> sensor_draws \<Rightarrow> real" where
  "raw_consumption hour d =
     (if hour \<ge> 7 \<and> hour \<le> 22
      then range_min (CONSUMPTION_RANGE CONFIG) +
           (range_max (CONSUMPTION_RANGE CONFIG) - range_min (CONSUMPTION_RANGE CONFIG)) * (7 / 10)
      else range_min (CONSUMPTION_RANGE CONFIG))
     + (r_consumption d - 1 / 2) * 2"

definition raw_inputVoltage :: "sensor_draws \<Rightarrow> real" where
  "raw_inputVoltage d =
     range_min (INPUT_VOLTAGE_RANGE CONFIG) +
     (range_max (INPUT_VOLTAGE_RANGE CONFIG) - range_min (INPUT_VOLTAGE_RANGE CONFIG)) *
     (8 / 10 + r_inputVoltage d * (4 / 10))"

definition raw_outputVoltage :: "sensor_draws \<Rightarrow> real" where
  "raw_outputVoltage d =
     range_min (OUTPUT_VOLTAGE_RANGE CONFIG) +
     (range_max (OUTPUT_VOLTAGE_RANGE CONFIG) - range_min (OUTPUT_VOLTAGE_RANGE CONFIG)) *
     (7 / 10 + r_outputVoltage d * (3 / 10))"

definition raw_inputCurrent :: "int \<Rightarrow> sensor_draws \<Rightarrow> real" where
  "raw_inputCurrent hour d =
     range_min (INPUT_CURRENT_RANGE CONFIG) +
     (range_max (INPUT_CURRENT_RANGE CONFIG) - range_min (INPUT_CURRENT_RANGE CONFIG)) *
     (raw_consumption hour d / range_max (CONSUMPTION_RANGE CONFIG))"

definition raw_outputCurrent :: "int \<Rightarrow> sensor_draws \<Rightarrow> real" where
  "raw_outputCurrent hour d =
     raw_inputCurrent hour d * (raw_inputVoltage d / raw_outputVoltage d) * (92 / 100)"

definition raw_dutyCycle :: "sensor_draws \<Rightarrow> real" where
  "raw_dutyCycle d =
     min (range_max (DUTY_CYCLE_RANGE CONFIG))
         (max (range_min (DUTY_CYCLE_RANGE CONFIG))
              ((1 - raw_inputVoltage d / raw_outputVoltage d) * 100))"

definition raw_efficiency :: "int \<Rightarrow> sensor_draws \<Rightarrow> real" where
  "raw_efficiency hour d =
     max (range_min (EFFICIENCY_RANGE CONFIG))
         (range_max (EFFICIENCY_RANGE CONFIG) *
            (1 - \<bar>raw_outputCurrent hour d / range_max (OUTPUT_CURRENT_RANGE CONFIG) - 7 / 10\<bar> * (1 / 10))
          + (r_efficiency d - 1 / 2) * 2)"

subsection \<open>Inputs used in the examples below\<close>

definition half_draws :: sensor_draws where
  "half_draws = \<lparr>r_generation = 1 / 2, r_consumption = 1 / 2, r_inputVoltage = 1 / 2,
     r_outputVoltage = 1 / 2, r_efficiency = 1 / 2, r_systemEfficiency = 1 / 2\<rparr>"

definition peak_draws :: sensor_draws where
  "peak_draws = \<lparr>r_generation = 1 / 2, r_consumption = 1 / 10, r_inputVoltage = 1 / 2,
     r_outputVoltage = 1 / 2, r_efficiency = 99 / 100, r_systemEfficiency = 1 / 2\<rparr>"

text \<open>
  A reading with low efficiency and high output voltage, and the clock and draws of two
  alerts built one millisecond apart whose ids coincide: 1000 + 500 and 1001 + 499.
\<close>

definition faulty_reading :: ConverterReading where
  "faulty_reading = \<lparr>inputVoltage = 12, outputVoltage = 30, inputCurrent = 2, outputCurrent = 1,
     outputPower = 30, dutyCycle = 50, efficiency = 80\<rparr>"

definition twin_stamps :: "nat \<Rightarrow> stamp_env" where
  "twin_stamps i = (if i = 0 then \<lparr>id_now = 1000, id_draw = 1 / 2, ts_now = 1000\<rparr>
                    else \<lparr>id_now = 1001, id_draw = 499 / 1000, ts_now = 1001\<rparr>)"

definition twin_alerts :: "Alert list" where
  "twin_alerts = checkConverterAlerts twin_stamps faulty_reading []"

definition crowded_alerts :: "Alert list" where
  "crowded_alerts = checkConverterAlerts twin_stamps faulty_reading (initial_systemAlerts 0)"

text \<open>A chance draw of 0 passes the 8% and the 10% test.\<close>

definition sure_env :: random_alert_env where
  "sure_env = \<lparr>chance_draw = 0, pick_draw = 1 / 2,
     stamp = \<lparr>id_now = 5000, id_draw = 1 / 4, ts_now = 5000\<rparr>\<rparr>"

text \<open>A page on which every element exists, with the gauges at their initial values.\<close>

definition demo_page :: page where
  "demo_page = \<lparr>texts = (\<lambda>_. Some []),
     batteryFill = Some \<lparr>fill_width = [], fill_background = []\<rparr>,
     systemStatus = Some \<lparr>inactive = False, status_text = ''ACTIVE''\<rparr>,
     voltageGauge = Some (Val (245 / 10)),
     efficiencyGauge = Some (Val (942 / 10))\<rparr>"

definition demo_dashboard :: dashboard where
  "demo_dashboard = \<lparr>chartData = initial_chartData, systemAlerts = initial_systemAlerts 0,
     page = demo_page\<rparr>"

definition empty_payload :: payload where
  "empty_payload = \<lparr>data_generation = Undefined, data_consumption = Undefined,
     data_batteryLevel = Undefined, data_efficiency = Undefined, data_converter = Undefined,
     data_systemStatus = Undefined, data_timestamp = Undefined\<rparr>"

definition noon_env :: tick_env where
  "noon_env = \<lparr>env_now = 0, env_hour = 12, env_stored = None, env_draws = half_draws,
     env_clock = 0, env_stamps = twin_stamps\<rparr>"

text \<open>A later clock reading with the draw 0, for the same two alerts.\<close>

definition late_stamps :: "nat \<Rightarrow> stamp_env" where
  "late_stamps i = \<lparr>id_now = 9000, id_draw = 0, ts_now = 9000\<rparr>"

text \<open>
  A payload that carries a generation value and a converter object with only its
  output voltage.
\<close>

definition partial_payload :: payload where
  "partial_payload = \<lparr>data_generation = Val 10, data_consumption = Undefined,
     data_batteryLevel = Undefined, data_efficiency = Undefined,
     data_converter = Val \<lparr>p_inputVoltage = Undefined, p_outputVoltage = Val (241 / 10),
       p_inputCurrent = Undefined, p_outputCurrent = Undefined, p_outputPower = Undefined,
       p_dutyCycle = Undefined, p_efficiency = Undefined\<rparr>,
     data_systemStatus = Undefined, data_timestamp = Undefined\<rparr>"

section \<open>Properties\<close>

subsection \<open>Rounding and the generator's ranges\<close>

lemmas raw_defs = raw_consumption_def raw_inputVoltage_def raw_outputVoltage_def
  raw_inputCurrent_def raw_outputCurrent_def raw_dutyCycle_def raw_efficiency_def

lemma converter_generateSensorData:
  "converter (generateSensorData now hour stored d) =
     \<lparr>inputVoltage = round1 (raw_inputVoltage d),
      outputVoltage = round1 (raw_outputVoltage d),
      inputCurrent = round1 (raw_inputCurrent hour d),
      outputCurrent = round1 (raw_outputCurrent hour d),
      outputPower = round1 (raw_outputVoltage d * raw_outputCurrent hour d),
      dutyCycle = round1 (raw_dutyCycle d),
      efficiency = round1 (raw_efficiency hour d)\<rparr>"
  unfolding generateSensorData_def Let_def raw_defs by (simp only: Reading.simps)

lemma Math_round_mono: "x \<le> y \<Longrightarrow> Math_round x \<le> Math_round y"
  unfolding Math_round_def by (intro floor_mono) simp

lemma round1_mono: "x \<le> y \<Longrightarrow> round1 x \<le> round1 y"
  unfolding round1_def using Math_round_mono [of "x * 10" "y * 10"] by (simp add: divide_right_mono)

lemma round1_tenths: "round1 (real_of_int k / 10) = real_of_int k / 10"
  unfolding round1_def Math_round_def by simp

lemma round1_close_upper: "round1 x \<le> x + 1 / 20"
  unfolding round1_def Math_round_def by linarith

lemma round1_close_lower: "x - 1 / 20 < round1 x"
  unfolding round1_def Math_round_def by linarith

lemma dutyCycle_le: "dutyCycle (converter (generateSensorData now hour stored d)) \<le> 65"
proof -
  have "round1 (raw_dutyCycle d) \<le> round1 65"
    by (rule round1_mono) (simp add: raw_dutyCycle_def CONFIG_def)
  moreover have "round1 (65::real) = 65" using round1_tenths [of 650] by simp
  ultimately show ?thesis by (simp add: converter_generateSensorData)
qed

lemma dutyCycle_ge: "40 \<le> dutyCycle (converter (generateSensorData now hour stored d))"
proof -
  have "round1 40 \<le> round1 (raw_dutyCycle d)"
    by (rule round1_mono) (simp add: raw_dutyCycle_def CONFIG_def)
  moreover have "round1 (40::real) = 40" using round1_tenths [of 400] by simp
  ultimately show ?thesis by (simp add: converter_generateSensorData)
qed

lemma efficiency_ge: "85 \<le> efficiency (converter (generateSensorData now hour stored d))"
proof -
  have "round1 85 \<le> round1 (raw_efficiency hour d)"
    by (rule round1_mono) (simp add: raw_efficiency_def CONFIG_def)
  moreover have "round1 (85::real) = 85" using round1_tenths [of 850] by simp
  ultimately show ?thesis by (simp add: converter_generateSensorData)
qed

lemma raw_outputVoltage_bounds:
  assumes "unit_draw (r_outputVoltage d)"
  shows "256 / 10 \<le> raw_outputVoltage d" and "raw_outputVoltage d < 28"
  using assms by (simp_all add: raw_outputVoltage_def unit_draw_def CONFIG_def)

lemma raw_inputVoltage_bounds:
  assumes "unit_draw (r_inputVoltage d)"
  shows "14 \<le> raw_inputVoltage d" and "raw_inputVoltage d < 16"
  using assms by (simp_all add: raw_inputVoltage_def unit_draw_def CONFIG_def)

lemma raw_consumption_bounds:
  assumes "unit_draw (r_consumption d)"
  shows "58 / 10 \<le> raw_consumption hour d" and "raw_consumption hour d < 1179 / 100"
  using assms by (simp_all add: raw_consumption_def unit_draw_def CONFIG_def)

lemma raw_inputCurrent_bounds:
  assumes "unit_draw (r_consumption d)"
  shows "2392 / 1000 \<le> raw_inputCurrent hour d" and "raw_inputCurrent hour d < 38296 / 10000"
  using raw_consumption_bounds [OF assms, of hour] by (simp_all add: raw_inputCurrent_def CONFIG_def)

lemma outputVoltage_ge:
  assumes "unit_draw (r_outputVoltage d)"
  shows "256 / 10 \<le> outputVoltage (converter (generateSensorData now hour stored d))"
proof -
  have "round1 (256 / 10) \<le> round1 (raw_outputVoltage d)"
    by (rule round1_mono) (rule raw_outputVoltage_bounds [OF assms])
  moreover have "round1 (256 / 10) = 256 / 10" using round1_tenths [of 256] by simp
  ultimately show ?thesis by (simp add: converter_generateSensorData)
qed

lemma raw_outputCurrent_bounds:
  assumes "valid_draws d"
  shows "0 \<le> raw_outputCurrent hour d" and "raw_outputCurrent hour d \<le> 23 / 10"
proof -
  from assms have c: "unit_draw (r_consumption d)" and i: "unit_draw (r_inputVoltage d)"
    and v: "unit_draw (r_outputVoltage d)" by (simp_all add: valid_draws_def)
  note ic = raw_inputCurrent_bounds [OF c, of hour]
  note iv = raw_inputVoltage_bounds [OF i]
  note ov = raw_outputVoltage_bounds [OF v]
  have ratio0: "0 \<le> raw_inputVoltage d / raw_outputVoltage d" using iv ov by simp
  have ratio1: "raw_inputVoltage d / raw_outputVoltage d \<le> 16 / (256 / 10)"
    using iv ov by (intro frac_le) simp_all
  define x where "x = raw_inputCurrent hour d * (raw_inputVoltage d / raw_outputVoltage d)"
  have "x \<le> (38296 / 10000) * (16 / (256 / 10))"
    unfolding x_def using ic ratio0 ratio1 by (intro mult_mono) simp_all
  then have "x * (92 / 100) \<le> 23 / 10" by simp
  then show "raw_outputCurrent hour d \<le> 23 / 10" unfolding raw_outputCurrent_def x_def .
  have "0 \<le> x"
    unfolding x_def using ic ratio0 by (intro mult_nonneg_nonneg) simp_all
  then have "0 \<le> x * (92 / 100)" by simp
  then show "0 \<le> raw_outputCurrent hour d" unfolding raw_outputCurrent_def x_def .
qed

lemma round1_product_close:
  assumes "0 \<le> v" "v \<le> 28" "0 \<le> i" "i \<le> 23 / 10"
  shows "\<bar>round1 (v * i) - round1 v * round1 i\<bar> < 16 / 10"
proof -
  define dv where "dv = round1 v - v"
  define di where "di = round1 i - i"
  have dv: "\<bar>dv\<bar> \<le> 1 / 20" unfolding dv_def using round1_close_upper [of v] round1_close_lower [of v] by linarith
  have di: "\<bar>di\<bar> \<le> 1 / 20" unfolding di_def using round1_close_upper [of i] round1_close_lower [of i] by linarith
  have p: "\<bar>round1 (v * i) - v * i\<bar> \<le> 1 / 20"
    using round1_close_upper [of "v * i"] round1_close_lower [of "v * i"] by linarith
  have e: "round1 v * round1 i - v * i = v * di + i * dv + dv * di"
    unfolding dv_def di_def by (simp add: algebra_simps)
  have "\<bar>v * di\<bar> \<le> 28 * (1 / 20)" unfolding abs_mult using assms di by (intro mult_mono) simp_all
  moreover have "\<bar>i * dv\<bar> \<le> (23 / 10) * (1 / 20)" unfolding abs_mult using assms dv by (intro mult_mono) simp_all
  moreover have "\<bar>dv * di\<bar> \<le> (1 / 20) * (1 / 20)" unfolding abs_mult using di dv by (intro mult_mono) simp_all
  ultimately have "\<bar>round1 v * round1 i - v * i\<bar> \<le> 28 / 20 + 23 / 200 + 1 / 400"
    unfolding e by linarith
  with p show ?thesis by linarith
qed

lemma converter_alerts_titles:
  "map title (converter_alerts c) =
     (if efficiency c < 85 then [''Critical Efficiency Drop''] else []) @
     (if \<bar>outputVoltage c - 24\<bar> > 48 / 100 then [''Output Voltage Out of Range''] else []) @
     (if dutyCycle c > 90 then [''Critical Duty Cycle''] else [])"
  by (simp add: converter_alerts_def Let_def)

lemma valid_half_draws: "valid_draws half_draws"
  by (simp add: valid_draws_def unit_draw_def half_draws_def)

lemma valid_peak_draws: "valid_draws peak_draws"
  by (simp add: valid_draws_def unit_draw_def peak_draws_def)

lemmas eval_converter = converter_generateSensorData raw_defs CONFIG_def round1_def Math_round_def

subsection \<open>Converter efficiency and the configured range\<close>

text \<open>
  C1. The efficiency field of a generated reading is meant to lie between the bounds of
  \<open>EFFICIENCY_RANGE\<close>, 85 and 96. The generator applies only the lower bound: at hour 12
  with the draws \<open>peak_draws\<close> (load factor next to the optimum, noise draw 0.99) the
  stored efficiency is 97.0, above the configured maximum.
\<close>

theorem efficiency_exceeds_range_max:
  "valid_draws peak_draws \<and>
   efficiency (converter (generateSensorData 0 12 None peak_draws)) = 97 \<and>
   range_max (EFFICIENCY_RANGE CONFIG) = 96"
  by (simp add: valid_peak_draws) (simp add: eval_converter peak_draws_def)

subsection \<open>Output power and the stored voltage and current\<close>

text \<open>
  C3, as stated: the stored output power is the one-decimal rounding of the product of
  the stored output voltage and output current. It fails at hour 0 with every draw 0.5:
  the stored fields are 26.8 V and 1.4 A, whose product 37.52 rounds to 37.5, and the
  stored power is 36.3.
\<close>

theorem outputPower_stored_product_counterexample:
  "outputPower (converter (generateSensorData 0 0 None half_draws)) \<noteq>
     round1 (outputVoltage (converter (generateSensorData 0 0 None half_draws)) *
             outputCurrent (converter (generateSensorData 0 0 None half_draws)))"
  by (simp add: eval_converter half_draws_def)

text \<open>
  C3, amended: the stored output power is the one-decimal rounding of the product of the
  unrounded output voltage and output current, each of which is stored rounded on its
  own; the stored power is within 1.6 W of the product of the stored voltage and current.
\<close>

theorem outputPower_rounds_unrounded_product:
  assumes "valid_draws d"
  shows "outputPower (converter (generateSensorData now hour stored d)) =
           round1 (raw_outputVoltage d * raw_outputCurrent hour d) \<and>
         outputVoltage (converter (generateSensorData now hour stored d)) =
           round1 (raw_outputVoltage d) \<and>
         outputCurrent (converter (generateSensorData now hour stored d)) =
           round1 (raw_outputCurrent hour d) \<and>
         \<bar>outputPower (converter (generateSensorData now hour stored d)) -
          outputVoltage (converter (generateSensorData now hour stored d)) *
          outputCurrent (converter (generateSensorData now hour stored d))\<bar> < 16 / 10"
proof -
  from assms have v: "unit_draw (r_outputVoltage d)" by (simp add: valid_draws_def)
  have "0 \<le> raw_outputVoltage d" "raw_outputVoltage d \<le> 28"
    using raw_outputVoltage_bounds [OF v] by simp_all
  then have "\<bar>round1 (raw_outputVoltage d * raw_outputCurrent hour d) -
             round1 (raw_outputVoltage d) * round1 (raw_outputCurrent hour d)\<bar> < 16 / 10"
    using raw_outputCurrent_bounds [OF assms, of hour] by (intro round1_product_close)
  then show ?thesis by (simp add: converter_generateSensorData)
qed

theorem outputPower_rounds_unrounded_product_witness:
  "valid_draws half_draws \<and>
   outputPower (converter (generateSensorData 0 0 None half_draws)) = 363 / 10 \<and>
   \<bar>outputPower (converter (generateSensorData 0 0 None half_draws)) -
    outputVoltage (converter (generateSensorData 0 0 None half_draws)) *
    outputCurrent (converter (generateSensorData 0 0 None half_draws))\<bar> < 16 / 10"
  using outputPower_rounds_unrounded_product [OF valid_half_draws, of 0 0 None]
  by (simp add: valid_half_draws) (simp add: eval_converter half_draws_def)

subsection \<open>Critical branches on synthetic readings\<close>

text \<open>
  C9. On a generated reading the duty cycle is at most 65 and the efficiency at least 85
  after rounding, so the alert evaluation adds neither the "Critical Duty Cycle" draft
  (duty cycle above 90) nor the "Critical Efficiency Drop" draft (efficiency below 85).
\<close>

theorem synthetic_critical_branches_unreachable:
  assumes "valid_draws d"
  shows "dutyCycle (converter (generateSensorData now hour stored d)) \<le> 65 \<and>
         85 \<le> efficiency (converter (generateSensorData now hour stored d)) \<and>
         ''Critical Duty Cycle'' \<notin>
           set (map title (converter_alerts (converter (generateSensorData now hour stored d)))) \<and>
         ''Critical Efficiency Drop'' \<notin>
           set (map title (converter_alerts (converter (generateSensorData now hour stored d))))"
proof -
  have d: "dutyCycle (converter (generateSensorData now hour stored d)) \<le> 65"
    by (rule dutyCycle_le)
  have e: "85 \<le> efficiency (converter (generateSensorData now hour stored d))"
    by (rule efficiency_ge)
  from d e show ?thesis
    unfolding converter_alerts_titles by simp
qed

theorem synthetic_critical_branches_unreachable_witness:
  "valid_draws peak_draws \<and>
   dutyCycle (converter (generateSensorData 0 12 None peak_draws)) \<le> 65 \<and>
   85 \<le> efficiency (converter (generateSensorData 0 12 None peak_draws)) \<and>
   ''Critical Duty Cycle'' \<notin>
     set (map title (converter_alerts (converter (generateSensorData 0 12 None peak_draws)))) \<and>
   ''Critical Efficiency Drop'' \<notin>
     set (map title (converter_alerts (converter (generateSensorData 0 12 None peak_draws))))"
  using synthetic_critical_branches_unreachable [OF valid_peak_draws, of 0 12 None]
  by (simp add: valid_peak_draws)

subsection \<open>The converter alert checks\<close>

lemma add_alerts_eq:
  "add_alerts stamps i ds store = rev (map (stamp_alert stamps) (enumerate i ds)) @ store"
  by (induction ds arbitrary: i store) (simp_all add: stamp_alert_def)

lemma enumerate_Nil_iff: "(enumerate i xs = []) = (xs = [])"
  by (cases xs) simp_all

lemma alert_parts_added:
  "map ((\<lambda>a. (alert_type a, alert_severity a, alert_title a, alert_description a)) \<circ>
        stamp_alert stamps) (enumerate i ds) =
   map (\<lambda>d. (Some (draft_type d), Some (severity d), Some (title d), Some (description d))) ds"
  by (induction ds arbitrary: i) (simp_all add: stamp_alert_def alert_object_def)

text \<open>
  C2, as stated: the converter alert evaluator is a deterministic pure function of the
  reading that returns its drafts. \<open>checkConverterAlerts\<close> returns nothing; its effect
  is on the alert store, and it depends on the clock and the random source: on the same
  reading \<open>faulty_reading\<close> and the same empty store, two environments give alerts with
  the ids 1500, 1500 and 9000, 9000.
\<close>

theorem checkConverterAlerts_environment_counterexample:
  "map alert_id (checkConverterAlerts twin_stamps faulty_reading []) = [1500, 1500] \<and>
   map alert_id (checkConverterAlerts late_stamps faulty_reading []) = [9000, 9000] \<and>
   checkConverterAlerts twin_stamps faulty_reading [] \<noteq>
     checkConverterAlerts late_stamps faulty_reading []"
proof -
  have a: "map alert_id (checkConverterAlerts twin_stamps faulty_reading []) = [1500, 1500]"
    by (simp add: checkConverterAlerts_def converter_alerts_def Let_def
      faulty_reading_def twin_stamps_def alert_object_def)
  have b: "map alert_id (checkConverterAlerts late_stamps faulty_reading []) = [9000, 9000]"
    by (simp add: checkConverterAlerts_def converter_alerts_def Let_def
      faulty_reading_def late_stamps_def alert_object_def)
  from a b have "map alert_id (checkConverterAlerts twin_stamps faulty_reading []) \<noteq>
     map alert_id (checkConverterAlerts late_stamps faulty_reading [])" by simp
  then have "checkConverterAlerts twin_stamps faulty_reading [] \<noteq>
     checkConverterAlerts late_stamps faulty_reading []" by auto
  with a b show ?thesis by simp
qed

text \<open>
  C2, amended: \<open>checkConverterAlerts\<close> returns nothing and is not pure: it reads the
  clock and the random source and inserts into the alert store. What the reading alone
  determines is the drafts it builds and, with them, the type, severity, title and
  description of the alerts it inserts, whatever the clock, the draws and the store: at
  most three, built in the order efficiency, voltage, duty cycle and put at the front of
  the store one by one (so they stand there in reverse order), each check on its own.
  The efficiency draft (error, high, "Critical Efficiency Drop") is built exactly when
  the efficiency is below 85, the voltage draft (warning, medium, "Output Voltage Out of
  Range") exactly when the output voltage is more than 0.48 away from 24, the duty-cycle
  draft (error, high, "Critical Duty Cycle") exactly when the duty cycle is above 90.
\<close>

theorem checkConverterAlerts_drafts_by_reading:
  "map (\<lambda>a. (alert_type a, alert_severity a, alert_title a, alert_description a))
       (checkConverterAlerts stamps c store) =
     rev ((if efficiency c < 85
           then [(Some error, Some high, Some ''Critical Efficiency Drop'',
                  Some [Lit ''Converter efficiency at '', Num (efficiency c), Lit ''%. Check components.''])]
           else []) @
          (if \<bar>outputVoltage c - 24\<bar> > 48 / 100
           then [(Some warning, Some medium, Some ''Output Voltage Out of Range'',
                  Some [Lit ''Output voltage '', Num (outputVoltage c),
                        Lit (''V outside '' @ plus_minus @ ''2% tolerance.'')])]
           else []) @
          (if dutyCycle c > 90
           then [(Some error, Some high, Some ''Critical Duty Cycle'',
                  Some [Lit ''Duty cycle at '', Num (dutyCycle c), Lit ''%. Risk of instability.''])]
           else [])) @
     map (\<lambda>a. (alert_type a, alert_severity a, alert_title a, alert_description a)) store \<and>
   length (checkConverterAlerts stamps c store) \<le> length store + 3 \<and>
   map (\<lambda>a. (draft_type a, severity a, title a)) (converter_alerts c) =
     (if efficiency c < 85 then [(error, high, ''Critical Efficiency Drop'')] else []) @
     (if \<bar>outputVoltage c - 24\<bar> > 48 / 100
      then [(warning, medium, ''Output Voltage Out of Range'')] else []) @
     (if dutyCycle c > 90 then [(error, high, ''Critical Duty Cycle'')] else []) \<and>
   length (converter_alerts c) \<le> 3"
proof -
  have parts: "map (\<lambda>a. (alert_type a, alert_severity a, alert_title a, alert_description a))
       (checkConverterAlerts stamps c store) =
     rev (map (\<lambda>d. (Some (draft_type d), Some (severity d), Some (title d), Some (description d)))
            (converter_alerts c)) @
     map (\<lambda>a. (alert_type a, alert_severity a, alert_title a, alert_description a)) store"
    by (simp add: checkConverterAlerts_def add_alerts_eq rev_map [symmetric] alert_parts_added)
  have len: "length (checkConverterAlerts stamps c store) = length store + length (converter_alerts c)"
    by (simp add: checkConverterAlerts_def add_alerts_eq)
  have three: "length (converter_alerts c) \<le> 3"
    by (simp add: converter_alerts_def Let_def)
  show ?thesis
    unfolding parts using len three
    by (simp add: converter_alerts_def Let_def)
qed

subsection \<open>What the alert check does to the store\<close>

lemma faulty_reading_alerts:
  "map title (converter_alerts faulty_reading) =
     [''Critical Efficiency Drop'', ''Output Voltage Out of Range'']"
  by (simp add: converter_alerts_titles faulty_reading_def)

lemma length_crowded_alerts: "length crowded_alerts = 5"
proof -
  have "length (converter_alerts faulty_reading) = 2"
    using arg_cong [OF faulty_reading_alerts, of length] by simp
  then show ?thesis
    by (simp add: crowded_alerts_def checkConverterAlerts_def add_alerts_eq initial_systemAlerts_def)
qed

text \<open>
  C5, as stated: evaluating a reading leaves the alert store unchanged. It fails on the
  reading \<open>faulty_reading\<close> (efficiency 80, output voltage 30): the store of the three
  initial alerts has five alerts afterwards.
\<close>

theorem evaluation_changes_store_counterexample:
  "checkConverterAlerts twin_stamps faulty_reading (initial_systemAlerts 0) \<noteq> initial_systemAlerts 0 \<and>
   length (initial_systemAlerts 0) = 3 \<and>
   length (checkConverterAlerts twin_stamps faulty_reading (initial_systemAlerts 0)) = 5"
proof -
  have "converter_alerts faulty_reading \<noteq> []"
    using faulty_reading_alerts by auto
  then have "checkConverterAlerts twin_stamps faulty_reading (initial_systemAlerts 0) \<noteq>
      initial_systemAlerts 0"
    by (simp add: checkConverterAlerts_def add_alerts_eq enumerate_Nil_iff)
  moreover have "length (initial_systemAlerts 0) = 3"
    by (simp add: initial_systemAlerts_def)
  ultimately show ?thesis
    using length_crowded_alerts by (simp add: crowded_alerts_def)
qed

text \<open>
  C5, amended: \<open>checkConverterAlerts\<close> does not return its drafts. It gives each draft an
  id (\<open>Date.now()\<close> plus a random integer below 1000) and a timestamp itself and puts it at
  the front of the alert store, one after the other, so that the last draft ends up
  first; the store is left unchanged exactly when the reading triggers no check.
\<close>

theorem checkConverterAlerts_inserts_drafts:
  "checkConverterAlerts stamps c store =
     rev (map (stamp_alert stamps) (enumerate 0 (converter_alerts c))) @ store \<and>
   (checkConverterAlerts stamps c store = store) = (converter_alerts c = [])"
  by (simp add: checkConverterAlerts_def add_alerts_eq enumerate_Nil_iff)

subsection \<open>The cap of the random alert injection\<close>

text \<open>
  C6. When the alert store holds five alerts or more, \<open>generateRandomAlert\<close> leaves it
  unchanged whatever the draws are, in the converter-aware script and in the baseline one.
\<close>

theorem random_alert_capped:
  assumes "5 \<le> length store"
  shows "generateRandomAlert env store = store \<and> generateRandomAlert_baseline env store = store"
  using assms by (simp add: generateRandomAlert_def generateRandomAlert_baseline_def)

theorem random_alert_capped_witness:
  "5 \<le> length crowded_alerts \<and>
   generateRandomAlert sure_env crowded_alerts = crowded_alerts \<and>
   generateRandomAlert_baseline sure_env crowded_alerts = crowded_alerts"
  using random_alert_capped [of crowded_alerts sure_env]
  by (simp add: length_crowded_alerts)

lemma random_alert_fires_below_cap:
  "length (generateRandomAlert sure_env twin_alerts) = 3 \<and>
   length (generateRandomAlert_baseline sure_env twin_alerts) = 3"
proof -
  have "length (converter_alerts faulty_reading) = 2"
    using arg_cong [OF faulty_reading_alerts, of length] by simp
  then have "length twin_alerts = 2"
    by (simp add: twin_alerts_def checkConverterAlerts_def add_alerts_eq)
  then show ?thesis
    by (simp add: generateRandomAlert_def generateRandomAlert_baseline_def sure_env_def Let_def)
qed

subsection \<open>The chart window\<close>

lemma shift_drop: "shift xs = drop 1 xs"
  by (cases xs) (simp_all add: shift_def)

lemma window_push:
  "drop (length (xs @ [x]) - 20) (xs @ [x]) =
     (if 20 \<le> length xs then drop 1 (drop (length xs - 20) xs @ [x])
      else drop (length xs - 20) xs @ [x])"
proof (cases "20 \<le> length xs")
  case True
  then have "Suc (length xs) - 20 = Suc (length xs - 20)" by simp
  with True show ?thesis by simp
next
  case False
  then show ?thesis by simp
qed

lemma updateChartData_window:
  assumes l: "labels cd = drop (length ls - 20) ls"
    and g: "chart_generation cd = drop (length gs - 20) gs"
    and c: "chart_consumption cd = drop (length cs - 20) cs"
    and len: "length ls = length gs" "length gs = length cs"
  shows "updateChartData t gv cv cd =
     \<lparr>labels = drop (length (ls @ [[HourMinute t]]) - 20) (ls @ [[HourMinute t]]),
      chart_generation = drop (length (gs @ [gv]) - 20) (gs @ [gv]),
      chart_consumption = drop (length (cs @ [cv]) - 20) (cs @ [cv])\<rparr>"
proof -
  have n: "length (labels cd) = min (length ls) 20" unfolding l by auto
  show ?thesis
    unfolding window_push updateChartData_def Let_def shift_drop
    using len n by (simp add: CONFIG_def l g c)
qed

lemma append_points_snoc:
  "append_points (pts @ [p]) chart =
     updateChartData (sample_timestamp p) (sample_generation p) (sample_consumption p)
       (append_points pts chart)"
  by (simp add: append_points_def)

lemma append_points_window:
  "append_points pts initial_chartData =
     \<lparr>labels = drop (length pts - 20) (map (\<lambda>p. [HourMinute (sample_timestamp p)]) pts),
      chart_generation = drop (length pts - 20) (map sample_generation pts),
      chart_consumption = drop (length pts - 20) (map sample_consumption pts)\<rparr>"
proof (induction pts rule: rev_induct)
  case Nil
  show ?case by (simp add: append_points_def initial_chartData_def)
next
  case (snoc p pts)
  show ?case
    unfolding append_points_snoc
    using updateChartData_window [of "append_points pts initial_chartData"
        "map (\<lambda>p. [HourMinute (sample_timestamp p)]) pts" "map sample_generation pts"
        "map sample_consumption pts" "sample_timestamp p" "sample_generation p" "sample_consumption p"]
    by (simp add: snoc.IH)
qed

text \<open>
  C7. After any number of appends to the initially empty chart data, the three sequences
  have the same length, at most \<open>MAX_DATA_POINTS\<close> (20): they hold the labels, the
  generation and the consumption values of the last 20 points appended, oldest first, so
  each append beyond the cap has dropped the oldest entry of each sequence.
\<close>

theorem chart_data_window:
  "length (labels (append_points pts initial_chartData)) = min (length pts) (MAX_DATA_POINTS CONFIG) \<and>
   length (chart_generation (append_points pts initial_chartData)) =
     min (length pts) (MAX_DATA_POINTS CONFIG) \<and>
   length (chart_consumption (append_points pts initial_chartData)) =
     min (length pts) (MAX_DATA_POINTS CONFIG) \<and>
   labels (append_points pts initial_chartData) =
     drop (length pts - MAX_DATA_POINTS CONFIG) (map (\<lambda>p. [HourMinute (sample_timestamp p)]) pts) \<and>
   chart_generation (append_points pts initial_chartData) =
     drop (length pts - MAX_DATA_POINTS CONFIG) (map sample_generation pts) \<and>
   chart_consumption (append_points pts initial_chartData) =
     drop (length pts - MAX_DATA_POINTS CONFIG) (map sample_consumption pts)"
  unfolding append_points_window by (simp add: CONFIG_def min_def)

subsection \<open>Dismissing an alert\<close>

lemma dismiss_removes_all: "alertId \<notin> alert_id ` set (dismissAlert alertId store)"
  by (auto simp add: dismissAlert_def)

lemma dismiss_noop_iff: "(dismissAlert alertId store = store) = (alertId \<notin> alert_id ` set store)"
  unfolding dismissAlert_def filter_id_conv by auto

lemma dismiss_append: "dismissAlert alertId (xs @ a # ys) =
     dismissAlert alertId xs @ (if alert_id a = alertId then [] else [a]) @ dismissAlert alertId ys"
  by (simp add: dismissAlert_def)

lemma twin_alerts_ids: "map alert_id twin_alerts = [1500, 1500]"
  by (simp add: twin_alerts_def checkConverterAlerts_def converter_alerts_def Let_def
      faulty_reading_def twin_stamps_def alert_object_def)

text \<open>
  C8, as stated: dismissing by id removes the first alert with that id and leaves a later
  alert with the same id in place. It fails on \<open>twin_alerts\<close>, the two alerts that one
  call of \<open>checkConverterAlerts\<close> adds with the same id 1500: dismissing 1500 empties the
  store, where removing the first match would keep one alert.
\<close>

theorem dismissAlert_twin_counterexample:
  "map alert_id twin_alerts = [1500, 1500] \<and>
   dismissAlert 1500 twin_alerts = [] \<and>
   length (removeFirstById_spec 1500 twin_alerts) = 1 \<and>
   dismissAlert 1500 twin_alerts \<noteq> removeFirstById_spec 1500 twin_alerts"
proof -
  obtain a b where ab: "twin_alerts = [a, b]" and a: "alert_id a = 1500" and b: "alert_id b = 1500"
    using twin_alerts_ids by (auto simp add: map_eq_Cons_conv)
  show ?thesis
    using twin_alerts_ids by (simp add: ab a b dismissAlert_def)
qed

text \<open>
  C8, amended: dismissing by id removes every alert whose id matches and keeps all other
  alerts in their order; when no alert has that id the store is unchanged (and only then).
\<close>

theorem dismissAlert_removes_every_match:
  "alertId \<notin> alert_id ` set (dismissAlert alertId store) \<and>
   (dismissAlert alertId store = store) = (alertId \<notin> alert_id ` set store) \<and>
   dismissAlert alertId (xs @ a # ys) =
     dismissAlert alertId xs @ (if alert_id a = alertId then [] else [a]) @ dismissAlert alertId ys"
  using dismiss_removes_all [of alertId store] dismiss_noop_iff [of alertId store]
    dismiss_append [of alertId xs a ys]
  by simp

subsection \<open>The voltage alert of every synthetic tick\<close>

lemma systemAlerts_updateDashboard:
  "systemAlerts (updateDashboard env st) =
     checkConverterAlerts (env_stamps env)
       (converter (generateSensorData (env_now env) (env_hour env) (env_stored env) (env_draws env)))
       (systemAlerts st)"
  unfolding updateDashboard_def Let_def by simp

lemma synthetic_converter_alerts:
  assumes "valid_draws d"
  shows "converter_alerts (converter (generateSensorData now hour stored d)) =
     [\<lparr>draft_type = warning, title = ''Output Voltage Out of Range'',
       description = [Lit ''Output voltage '',
                      Num (outputVoltage (converter (generateSensorData now hour stored d))),
                      Lit (''V outside '' @ plus_minus @ ''2% tolerance.'')],
       severity = medium\<rparr>]"
proof -
  from assms have v: "unit_draw (r_outputVoltage d)" by (simp add: valid_draws_def)
  have "256 / 10 \<le> outputVoltage (converter (generateSensorData now hour stored d))"
    by (rule outputVoltage_ge [OF v])
  moreover have "dutyCycle (converter (generateSensorData now hour stored d)) \<le> 65"
    by (rule dutyCycle_le)
  moreover have "85 \<le> efficiency (converter (generateSensorData now hour stored d))"
    by (rule efficiency_ge)
  ultimately show ?thesis
    by (simp add: converter_alerts_def Let_def)
qed

lemma generateRandomAlert_keeps:
  "set store \<subseteq> set (generateRandomAlert renv store)"
  by (auto simp add: generateRandomAlert_def Let_def)

text \<open>
  C4. On a generated reading the rounded output voltage is at least 25.6 V, outside the
  tolerance of 0.48 V around 24 V, so the voltage check is the one check that fires: each
  \<open>updateDashboard\<close> puts one "Output Voltage Out of Range" alert at the front of the
  store, and the alert is in the store at the end of the tick.
\<close>

theorem synthetic_tick_voltage_alert:
  assumes "valid_draws (env_draws env)"
  shows "256 / 10 \<le> outputVoltage (converter
           (generateSensorData (env_now env) (env_hour env) (env_stored env) (env_draws env))) \<and>
         map title (converter_alerts (converter
           (generateSensorData (env_now env) (env_hour env) (env_stored env) (env_draws env)))) =
           [''Output Voltage Out of Range''] \<and>
         map alert_title (systemAlerts (updateDashboard env st)) =
           Some ''Output Voltage Out of Range'' # map alert_title (systemAlerts st) \<and>
         Some ''Output Voltage Out of Range'' \<in>
           alert_title ` set (systemAlerts (data_tick env renv st))"
proof -
  from assms have v: "unit_draw (r_outputVoltage (env_draws env))" by (simp add: valid_draws_def)
  have front: "map alert_title (systemAlerts (updateDashboard env st)) =
      Some ''Output Voltage Out of Range'' # map alert_title (systemAlerts st)"
    by (simp add: systemAlerts_updateDashboard checkConverterAlerts_def
        synthetic_converter_alerts [OF assms] alert_object_def)
  have "Some ''Output Voltage Out of Range'' \<in>
      set (map alert_title (systemAlerts (updateDashboard env st)))"
    unfolding front by simp
  then have "Some ''Output Voltage Out of Range'' \<in>
      alert_title ` set (systemAlerts (updateDashboard env st))"
    by simp
  moreover have "set (systemAlerts (updateDashboard env st)) \<subseteq>
      set (systemAlerts (data_tick env renv st))"
    using generateRandomAlert_keeps [of "systemAlerts (updateDashboard env st)" renv]
    by (simp add: data_tick_def Let_def)
  ultimately have "Some ''Output Voltage Out of Range'' \<in>
      alert_title ` set (systemAlerts (data_tick env renv st))"
    by blast
  with front show ?thesis
    using outputVoltage_ge [OF v, of "env_now env" "env_hour env" "env_stored env"]
    by (simp add: synthetic_converter_alerts [OF assms])
qed

theorem synthetic_tick_voltage_alert_witness:
  "valid_draws (env_draws noon_env) \<and>
   map alert_title (systemAlerts (updateDashboard noon_env demo_dashboard)) =
     [Some ''Output Voltage Out of Range'', Some ''DC-DC Converter Efficiency Low'',
      Some ''Output Voltage Regulation'', Some ''Duty Cycle Optimization'']"
  using synthetic_tick_voltage_alert [of noon_env demo_dashboard sure_env]
  by (simp add: noon_env_def valid_half_draws demo_dashboard_def initial_systemAlerts_def
      alert_object_def)

subsection \<open>Ingesting a payload with absent fields\<close>

lemma texts_set_textContent:
  "texts (set_textContent i t pg) j =
     (if j = i \<and> j \<in> dom (texts pg) then Some t else texts pg j)"
  by (auto simp add: set_textContent_def)

lemma frame_set_textContent:
  "batteryFill (set_textContent i t pg) = batteryFill pg"
  "systemStatus (set_textContent i t pg) = systemStatus pg"
  "voltageGauge (set_textContent i t pg) = voltageGauge pg"
  "efficiencyGauge (set_textContent i t pg) = efficiencyGauge pg"
  "dom (texts (set_textContent i t pg)) = dom (texts pg)"
  by (auto simp add: set_textContent_def)

lemma chart_ingest:
  "chartData (updateDashboardWithRealData date_now clock data st) =
     updateChartData (or_default (data_timestamp data) date_now)
       (or_default (data_generation data) 0) (or_default (data_consumption data) 0) (chartData st)"
  unfolding updateDashboardWithRealData_def Let_def by (simp add: chartDataPoint_def)

lemma frame_updateMetricCard:
  "texts (updateMetricCard ty v pg) j =
     (if j = ty @ ''-value'' \<and> j \<in> dom (texts pg) then Some v else texts pg j)"
  "batteryFill (updateMetricCard ty v pg) = batteryFill pg"
  "systemStatus (updateMetricCard ty v pg) = systemStatus pg"
  "voltageGauge (updateMetricCard ty v pg) = voltageGauge pg"
  "efficiencyGauge (updateMetricCard ty v pg) = efficiencyGauge pg"
  by (simp_all add: updateMetricCard_def texts_set_textContent frame_set_textContent)

lemma frame_animateMetricValue:
  "texts (animateMetricValue i v pg) j =
     (if j = i \<and> j \<in> dom (texts pg) then Some (textContent_of v) else texts pg j)"
  "dom (texts (animateMetricValue i v pg)) = dom (texts pg)"
  "batteryFill (animateMetricValue i v pg) = batteryFill pg"
  "systemStatus (animateMetricValue i v pg) = systemStatus pg"
  "voltageGauge (animateMetricValue i v pg) = voltageGauge pg"
  "efficiencyGauge (animateMetricValue i v pg) = efficiencyGauge pg"
  by (simp_all add: animateMetricValue_def texts_set_textContent frame_set_textContent)

lemma frame_updateBatteryIndicator:
  "texts (updateBatteryIndicator v pg) = texts pg"
  "systemStatus (updateBatteryIndicator v pg) = systemStatus pg"
  "voltageGauge (updateBatteryIndicator v pg) = voltageGauge pg"
  "efficiencyGauge (updateBatteryIndicator v pg) = efficiencyGauge pg"
  by (simp_all add: updateBatteryIndicator_def split: option.split)

lemma frame_updateSystemStatus:
  "texts (updateSystemStatus v pg) = texts pg"
  "batteryFill (updateSystemStatus v pg) = batteryFill pg"
  "voltageGauge (updateSystemStatus v pg) = voltageGauge pg"
  "efficiencyGauge (updateSystemStatus v pg) = efficiencyGauge pg"
  by (simp_all add: updateSystemStatus_def split: option.split)

lemma frame_updateSystemTimestamp:
  "texts (updateSystemTimestamp clock pg) j =
     (if j = ''system-timestamp'' \<and> j \<in> dom (texts pg) then Some [LocaleDateTime clock]
      else texts pg j)"
  "batteryFill (updateSystemTimestamp clock pg) = batteryFill pg"
  "systemStatus (updateSystemTimestamp clock pg) = systemStatus pg"
  "voltageGauge (updateSystemTimestamp clock pg) = voltageGauge pg"
  "efficiencyGauge (updateSystemTimestamp clock pg) = efficiencyGauge pg"
  by (simp_all add: updateSystemTimestamp_def texts_set_textContent frame_set_textContent)

lemma frame_updateConverterMetrics:
  "batteryFill (updateConverterMetrics cv pg) = batteryFill pg"
  "systemStatus (updateConverterMetrics cv pg) = systemStatus pg"
  "voltageGauge (updateConverterMetrics cv pg) = voltageGauge pg"
  "efficiencyGauge (updateConverterMetrics cv pg) = efficiencyGauge pg"
  "dom (texts (updateConverterMetrics cv pg)) = dom (texts pg)"
  by (simp_all add: updateConverterMetrics_def Let_def frame_animateMetricValue split: jsval.split)

lemma texts_updateConverterMetrics_other:
  "j \<notin> {''input-voltage'', ''input-current'', ''output-current'', ''output-power'', ''duty-cycle''}
   \<Longrightarrow> texts (updateConverterMetrics cv pg) j = texts pg j"
  by (simp add: updateConverterMetrics_def Let_def frame_animateMetricValue split: jsval.split)


lemmas ingest_defs = ingest_generation_def ingest_consumption_def ingest_batteryLevel_def
  ingest_efficiency_def ingest_converter_def ingest_systemStatus_def

lemma page_ingest:
  "page (updateDashboardWithRealData date_now clock data st) =
     updateSystemTimestamp clock
       (ingest_systemStatus data (ingest_converter data (ingest_efficiency data
         (ingest_batteryLevel data (ingest_consumption data (ingest_generation data (page st)))))))"
  unfolding updateDashboardWithRealData_def ingest_defs Let_def by simp

lemma frame_ingest_generation:
  "texts (ingest_generation data pg) j =
     (if data_generation data \<noteq> Undefined \<and> j = ''generation-value'' \<and> j \<in> dom (texts pg)
      then Some (toFixed1 (Number_of (data_generation data))) else texts pg j)"
  "batteryFill (ingest_generation data pg) = batteryFill pg"
  "systemStatus (ingest_generation data pg) = systemStatus pg"
  "voltageGauge (ingest_generation data pg) = voltageGauge pg"
  "efficiencyGauge (ingest_generation data pg) = efficiencyGauge pg"
  by (auto simp add: ingest_generation_def frame_updateMetricCard)

lemma frame_ingest_consumption:
  "texts (ingest_consumption data pg) j =
     (if data_consumption data \<noteq> Undefined \<and> j = ''consumption-value'' \<and> j \<in> dom (texts pg)
      then Some (toFixed1 (Number_of (data_consumption data))) else texts pg j)"
  "batteryFill (ingest_consumption data pg) = batteryFill pg"
  "systemStatus (ingest_consumption data pg) = systemStatus pg"
  "voltageGauge (ingest_consumption data pg) = voltageGauge pg"
  "efficiencyGauge (ingest_consumption data pg) = efficiencyGauge pg"
  by (auto simp add: ingest_consumption_def frame_updateMetricCard)

lemma frame_ingest_batteryLevel:
  "texts (ingest_batteryLevel data pg) j =
     (if data_batteryLevel data \<noteq> Undefined \<and> j = ''storage-value'' \<and> j \<in> dom (texts pg)
      then Some (textContent_of (data_batteryLevel data)) else texts pg j)"
  "data_batteryLevel data = Undefined \<Longrightarrow> batteryFill (ingest_batteryLevel data pg) = batteryFill pg"
  "systemStatus (ingest_batteryLevel data pg) = systemStatus pg"
  "voltageGauge (ingest_batteryLevel data pg) = voltageGauge pg"
  "efficiencyGauge (ingest_batteryLevel data pg) = efficiencyGauge pg"
  by (auto simp add: ingest_batteryLevel_def frame_updateMetricCard frame_updateBatteryIndicator)

lemma frame_ingest_efficiency:
  "texts (ingest_efficiency data pg) j =
     (if data_efficiency data \<noteq> Undefined \<and> j = ''efficiency-value'' \<and> j \<in> dom (texts pg)
      then Some (string_of (data_efficiency data) @ [Lit ''%'']) else texts pg j)"
  "batteryFill (ingest_efficiency data pg) = batteryFill pg"
  "systemStatus (ingest_efficiency data pg) = systemStatus pg"
  "voltageGauge (ingest_efficiency data pg) = voltageGauge pg"
  "efficiencyGauge (ingest_efficiency data pg) = efficiencyGauge pg"
  by (auto simp add: ingest_efficiency_def texts_set_textContent frame_set_textContent)

lemma ingest_converter_absent:
  "data_converter data = Undefined \<Longrightarrow> ingest_converter data pg = pg"
  by (simp add: ingest_converter_def)

lemma frame_ingest_converter:
  "j \<notin> {''input-voltage'', ''input-current'', ''output-current'', ''output-power'', ''duty-cycle'',
         ''voltage-display'', ''efficiency-display''}
   \<Longrightarrow> texts (ingest_converter data pg) j = texts pg j"
  "batteryFill (ingest_converter data pg) = batteryFill pg"
  "systemStatus (ingest_converter data pg) = systemStatus pg"
  by (simp_all add: ingest_converter_def Let_def texts_set_textContent frame_set_textContent
      texts_updateConverterMetrics_other frame_updateConverterMetrics split: jsval.split)

lemma frame_ingest_systemStatus:
  "texts (ingest_systemStatus data pg) = texts pg"
  "batteryFill (ingest_systemStatus data pg) = batteryFill pg"
  "data_systemStatus data = Undefined \<Longrightarrow> systemStatus (ingest_systemStatus data pg) = systemStatus pg"
  "voltageGauge (ingest_systemStatus data pg) = voltageGauge pg"
  "efficiencyGauge (ingest_systemStatus data pg) = efficiencyGauge pg"
  by (simp_all add: ingest_systemStatus_def frame_updateSystemStatus)

lemmas frame_ingest = frame_updateSystemTimestamp frame_ingest_systemStatus frame_ingest_converter
  frame_ingest_efficiency frame_ingest_batteryLevel frame_ingest_consumption frame_ingest_generation

lemma ingest_generation_skipped:
  assumes "data_generation data = Undefined"
  shows "texts (page (updateDashboardWithRealData date_now clock data st)) ''generation-value'' =
     texts (page st) ''generation-value''"
  using assms by (simp add: page_ingest frame_ingest)

lemma ingest_consumption_skipped:
  assumes "data_consumption data = Undefined"
  shows "texts (page (updateDashboardWithRealData date_now clock data st)) ''consumption-value'' =
     texts (page st) ''consumption-value''"
  using assms by (simp add: page_ingest frame_ingest)

lemma ingest_batteryLevel_skipped:
  assumes "data_batteryLevel data = Undefined"
  shows "texts (page (updateDashboardWithRealData date_now clock data st)) ''storage-value'' =
     texts (page st) ''storage-value''"
    and "batteryFill (page (updateDashboardWithRealData date_now clock data st)) = batteryFill (page st)"
  using assms by (simp_all add: page_ingest frame_ingest)

lemma ingest_efficiency_skipped:
  assumes "data_efficiency data = Undefined"
  shows "texts (page (updateDashboardWithRealData date_now clock data st)) ''efficiency-value'' =
     texts (page st) ''efficiency-value''"
  using assms by (simp add: page_ingest frame_ingest)

lemma ingest_converter_skipped:
  assumes "data_converter data = Undefined"
  shows "voltageGauge (page (updateDashboardWithRealData date_now clock data st)) = voltageGauge (page st)"
    and "efficiencyGauge (page (updateDashboardWithRealData date_now clock data st)) = efficiencyGauge (page st)"
    and "map (texts (page (updateDashboardWithRealData date_now clock data st)))
           [''input-voltage'', ''input-current'', ''output-current'', ''output-power'', ''duty-cycle'',
            ''voltage-display'', ''efficiency-display''] =
         map (texts (page st))
           [''input-voltage'', ''input-current'', ''output-current'', ''output-power'', ''duty-cycle'',
            ''voltage-display'', ''efficiency-display'']"
  using assms
  by (simp_all add: page_ingest ingest_converter_absent frame_updateSystemTimestamp frame_ingest_systemStatus
      frame_ingest_efficiency frame_ingest_batteryLevel frame_ingest_consumption frame_ingest_generation)

lemma ingest_systemStatus_skipped:
  assumes "data_systemStatus data = Undefined"
  shows "systemStatus (page (updateDashboardWithRealData date_now clock data st)) = systemStatus (page st)"
  using assms by (simp add: page_ingest frame_ingest)

lemma baseline_all_absent:
  assumes "data_generation data = Undefined" "data_consumption data = Undefined"
    "data_batteryLevel data = Undefined" "data_efficiency data = Undefined"
  shows "updateDashboardWithRealData_baseline date_now data st =
     Inr (st\<lparr>chartData := updateChartData (or_default (data_timestamp data) date_now) 0 0 (chartData st)\<rparr>)"
  using assms unfolding updateDashboardWithRealData_baseline_def Let_def
  by (simp add: chartDataPoint_def or_default_def)

lemma dom_updateMetricCard: "dom (texts (updateMetricCard ty v pg)) = dom (texts pg)"
  by (simp add: updateMetricCard_def frame_set_textContent)

lemma dom_ingest:
  "dom (texts (ingest_generation data pg)) = dom (texts pg)"
  "dom (texts (ingest_consumption data pg)) = dom (texts pg)"
  "dom (texts (ingest_batteryLevel data pg)) = dom (texts pg)"
  "dom (texts (ingest_efficiency data pg)) = dom (texts pg)"
  by (simp_all add: ingest_generation_def ingest_consumption_def ingest_batteryLevel_def
      ingest_efficiency_def dom_updateMetricCard frame_updateBatteryIndicator frame_set_textContent)

lemma baseline_cases:
  "updateDashboardWithRealData_baseline date_now data st =
    (if data_generation data = Null then Inl (TypeError, st)
     else if data_consumption data = Null
     then Inl (TypeError, st\<lparr>page := ingest_generation data (page st)\<rparr>)
     else if data_efficiency data \<noteq> Undefined \<and> ''efficiency-value'' \<notin> dom (texts (page st))
     then Inl (TypeError, st\<lparr>page := ingest_batteryLevel data (ingest_consumption data
                                          (ingest_generation data (page st)))\<rparr>)
     else Inr (st\<lparr>chartData := updateChartData (point_timestamp (chartDataPoint date_now data))
                                  (point_generation (chartDataPoint date_now data))
                                  (point_consumption (chartDataPoint date_now data)) (chartData st),
                  page := ingest_efficiency data (ingest_batteryLevel data (ingest_consumption data
                            (ingest_generation data (page st))))\<rparr>))"
proof -
  have d: "dom (texts (ingest_batteryLevel data (ingest_consumption data
             (ingest_generation data (page st))))) = dom (texts (page st))"
    by (simp add: dom_ingest)
  show ?thesis
    unfolding updateDashboardWithRealData_baseline_def Let_def
      ingest_generation_def [symmetric] ingest_consumption_def [symmetric]
      ingest_batteryLevel_def [symmetric] ingest_efficiency_def [symmetric] d
    by simp
qed

lemma baseline_completes:
  "isl (updateDashboardWithRealData_baseline date_now data st) =
     (data_generation data = Null \<or> data_consumption data = Null \<or>
      (data_efficiency data \<noteq> Undefined \<and> ''efficiency-value'' \<notin> dom (texts (page st))))"
  by (simp add: baseline_cases)

lemma baseline_chart:
  "chartData (final_state (updateDashboardWithRealData_baseline date_now data st)) =
     (if isl (updateDashboardWithRealData_baseline date_now data st) then chartData st
      else updateChartData (point_timestamp (chartDataPoint date_now data))
             (point_generation (chartDataPoint date_now data))
             (point_consumption (chartDataPoint date_now data)) (chartData st))"
  by (simp add: baseline_cases final_state_def)

lemma baseline_alerts:
  "systemAlerts (final_state (updateDashboardWithRealData_baseline date_now data st)) = systemAlerts st"
  by (simp add: baseline_cases final_state_def)

lemma baseline_generation_skipped:
  assumes "data_generation data = Undefined"
  shows "texts (page (final_state (updateDashboardWithRealData_baseline date_now data st))) ''generation-value'' =
     texts (page st) ''generation-value''"
  using assms by (simp add: baseline_cases final_state_def frame_ingest)

lemma baseline_consumption_skipped:
  assumes "data_consumption data = Undefined"
  shows "texts (page (final_state (updateDashboardWithRealData_baseline date_now data st))) ''consumption-value'' =
     texts (page st) ''consumption-value''"
  using assms by (simp add: baseline_cases final_state_def frame_ingest)

lemma baseline_batteryLevel_skipped:
  assumes "data_batteryLevel data = Undefined"
  shows "texts (page (final_state (updateDashboardWithRealData_baseline date_now data st))) ''storage-value'' =
     texts (page st) ''storage-value''"
    and "batteryFill (page (final_state (updateDashboardWithRealData_baseline date_now data st))) =
     batteryFill (page st)"
  using assms by (simp_all add: baseline_cases final_state_def frame_ingest)

lemma baseline_efficiency_skipped:
  assumes "data_efficiency data = Undefined"
  shows "texts (page (final_state (updateDashboardWithRealData_baseline date_now data st))) ''efficiency-value'' =
     texts (page st) ''efficiency-value''"
  using assms by (simp add: baseline_cases final_state_def frame_ingest)

lemma cond_animate:
  "texts (if b then animateMetricValue i v pg else pg) j =
     (if b \<and> j = i \<and> j \<in> dom (texts pg) then Some (textContent_of v) else texts pg j)"
  "dom (texts (if b then animateMetricValue i v pg else pg)) = dom (texts pg)"
  by (auto simp add: frame_animateMetricValue)

lemma texts_updateConverterMetrics:
  "texts (updateConverterMetrics (Val c) pg) j =
     (if p_dutyCycle c \<noteq> Undefined \<and> j = ''duty-cycle'' \<and> j \<in> dom (texts pg)
      then Some (textContent_of (p_dutyCycle c))
      else if p_outputPower c \<noteq> Undefined \<and> j = ''output-power'' \<and> j \<in> dom (texts pg)
      then Some (textContent_of (p_outputPower c))
      else if p_outputCurrent c \<noteq> Undefined \<and> j = ''output-current'' \<and> j \<in> dom (texts pg)
      then Some (textContent_of (p_outputCurrent c))
      else if p_inputCurrent c \<noteq> Undefined \<and> j = ''input-current'' \<and> j \<in> dom (texts pg)
      then Some (textContent_of (p_inputCurrent c))
      else if p_inputVoltage c \<noteq> Undefined \<and> j = ''input-voltage'' \<and> j \<in> dom (texts pg)
      then Some (textContent_of (p_inputVoltage c))
      else texts pg j)"
  unfolding updateConverterMetrics_def Let_def
  by (simp only: jsval.case cond_animate)

lemma ingest_converter_Val:
  assumes "data_converter data = Val c"
  shows "texts (ingest_converter data pg) j =
     (if (p_efficiency c \<noteq> Undefined \<and> efficiencyGauge pg \<noteq> None) \<and>
         j = ''efficiency-display'' \<and> j \<in> dom (texts pg)
      then Some (string_of (p_efficiency c) @ [Lit '' %''])
      else if (p_outputVoltage c \<noteq> Undefined \<and> voltageGauge pg \<noteq> None) \<and>
              j = ''voltage-display'' \<and> j \<in> dom (texts pg)
      then Some (string_of (p_outputVoltage c) @ [Lit '' V''])
      else texts (updateConverterMetrics (Val c) pg) j)"
    and "voltageGauge (ingest_converter data pg) =
     (if p_outputVoltage c \<noteq> Undefined \<and> voltageGauge pg \<noteq> None
      then Some (p_outputVoltage c) else voltageGauge pg)"
    and "efficiencyGauge (ingest_converter data pg) =
     (if p_efficiency c \<noteq> Undefined \<and> efficiencyGauge pg \<noteq> None
      then Some (p_efficiency c) else efficiencyGauge pg)"
proof -
  define q1 where "q1 = updateConverterMetrics (Val c) pg"
  define q2 where "q2 =
    (if p_outputVoltage c \<noteq> Undefined \<and> voltageGauge q1 \<noteq> None
     then set_textContent ''voltage-display'' (string_of (p_outputVoltage c) @ [Lit '' V''])
            (q1\<lparr>voltageGauge := Some (p_outputVoltage c)\<rparr>)
     else q1)"
  have eq: "ingest_converter data pg =
    (if p_efficiency c \<noteq> Undefined \<and> efficiencyGauge q2 \<noteq> None
     then set_textContent ''efficiency-display'' (string_of (p_efficiency c) @ [Lit '' %''])
            (q2\<lparr>efficiencyGauge := Some (p_efficiency c)\<rparr>)
     else q2)"
    unfolding ingest_converter_def assms q1_def q2_def Let_def by (simp only: jsval.case)
  have q1: "voltageGauge q1 = voltageGauge pg" "efficiencyGauge q1 = efficiencyGauge pg"
    "dom (texts q1) = dom (texts pg)"
    unfolding q1_def by (simp_all add: frame_updateConverterMetrics)
  have q2: "voltageGauge q2 =
      (if p_outputVoltage c \<noteq> Undefined \<and> voltageGauge pg \<noteq> None
       then Some (p_outputVoltage c) else voltageGauge pg)"
    "efficiencyGauge q2 = efficiencyGauge pg"
    "dom (texts q2) = dom (texts pg)"
    unfolding q2_def by (auto simp add: q1 texts_set_textContent frame_set_textContent)
  have q2t: "texts q2 k =
      (if (p_outputVoltage c \<noteq> Undefined \<and> voltageGauge pg \<noteq> None) \<and>
          k = ''voltage-display'' \<and> k \<in> dom (texts pg)
       then Some (string_of (p_outputVoltage c) @ [Lit '' V''])
       else texts q1 k)" for k
    unfolding q2_def by (auto simp add: q1 texts_set_textContent frame_set_textContent)
  show "voltageGauge (ingest_converter data pg) =
     (if p_outputVoltage c \<noteq> Undefined \<and> voltageGauge pg \<noteq> None
      then Some (p_outputVoltage c) else voltageGauge pg)"
    unfolding eq by (auto simp add: q2 frame_set_textContent)
  show "efficiencyGauge (ingest_converter data pg) =
     (if p_efficiency c \<noteq> Undefined \<and> efficiencyGauge pg \<noteq> None
      then Some (p_efficiency c) else efficiencyGauge pg)"
    unfolding eq by (auto simp add: q2 frame_set_textContent)
  show "texts (ingest_converter data pg) j =
     (if (p_efficiency c \<noteq> Undefined \<and> efficiencyGauge pg \<noteq> None) \<and>
         j = ''efficiency-display'' \<and> j \<in> dom (texts pg)
      then Some (string_of (p_efficiency c) @ [Lit '' %''])
      else if (p_outputVoltage c \<noteq> Undefined \<and> voltageGauge pg \<noteq> None) \<and>
              j = ''voltage-display'' \<and> j \<in> dom (texts pg)
      then Some (string_of (p_outputVoltage c) @ [Lit '' V''])
      else texts (updateConverterMetrics (Val c) pg) j)"
    unfolding eq by (auto simp add: q2 q2t texts_set_textContent q1_def)
qed


lemma ingest_converter_field_skipped:
  "converter_field p_inputVoltage data = Undefined \<Longrightarrow>
     texts (ingest_converter data pg) ''input-voltage'' = texts pg ''input-voltage''"
  "converter_field p_inputCurrent data = Undefined \<Longrightarrow>
     texts (ingest_converter data pg) ''input-current'' = texts pg ''input-current''"
  "converter_field p_outputCurrent data = Undefined \<Longrightarrow>
     texts (ingest_converter data pg) ''output-current'' = texts pg ''output-current''"
  "converter_field p_outputPower data = Undefined \<Longrightarrow>
     texts (ingest_converter data pg) ''output-power'' = texts pg ''output-power''"
  "converter_field p_dutyCycle data = Undefined \<Longrightarrow>
     texts (ingest_converter data pg) ''duty-cycle'' = texts pg ''duty-cycle''"
  "converter_field p_outputVoltage data = Undefined \<Longrightarrow>
     texts (ingest_converter data pg) ''voltage-display'' = texts pg ''voltage-display''"
  "converter_field p_outputVoltage data = Undefined \<Longrightarrow>
     voltageGauge (ingest_converter data pg) = voltageGauge pg"
  "converter_field p_efficiency data = Undefined \<Longrightarrow>
     texts (ingest_converter data pg) ''efficiency-display'' = texts pg ''efficiency-display''"
  "converter_field p_efficiency data = Undefined \<Longrightarrow>
     efficiencyGauge (ingest_converter data pg) = efficiencyGauge pg"
proof -
  consider (absent) "data_converter data = Undefined \<or> data_converter data = Null"
    | (present) c where "data_converter data = Val c"
    by (cases "data_converter data") auto
  then have all: "(converter_field p_inputVoltage data = Undefined \<longrightarrow>
       texts (ingest_converter data pg) ''input-voltage'' = texts pg ''input-voltage'') \<and>
     (converter_field p_inputCurrent data = Undefined \<longrightarrow>
       texts (ingest_converter data pg) ''input-current'' = texts pg ''input-current'') \<and>
     (converter_field p_outputCurrent data = Undefined \<longrightarrow>
       texts (ingest_converter data pg) ''output-current'' = texts pg ''output-current'') \<and>
     (converter_field p_outputPower data = Undefined \<longrightarrow>
       texts (ingest_converter data pg) ''output-power'' = texts pg ''output-power'') \<and>
     (converter_field p_dutyCycle data = Undefined \<longrightarrow>
       texts (ingest_converter data pg) ''duty-cycle'' = texts pg ''duty-cycle'') \<and>
     (converter_field p_outputVoltage data = Undefined \<longrightarrow>
       texts (ingest_converter data pg) ''voltage-display'' = texts pg ''voltage-display'' \<and>
       voltageGauge (ingest_converter data pg) = voltageGauge pg) \<and>
     (converter_field p_efficiency data = Undefined \<longrightarrow>
       texts (ingest_converter data pg) ''efficiency-display'' = texts pg ''efficiency-display'' \<and>
       efficiencyGauge (ingest_converter data pg) = efficiencyGauge pg)"
  proof cases
    case absent
    then have "ingest_converter data pg = pg"
      by (auto simp add: ingest_converter_def)
    then show ?thesis by simp
  next
    case present
    show ?thesis
      by (simp add: ingest_converter_Val [OF present] texts_updateConverterMetrics
          converter_field_def present)
  qed
  from all show
    "converter_field p_inputVoltage data = Undefined \<Longrightarrow>
       texts (ingest_converter data pg) ''input-voltage'' = texts pg ''input-voltage''"
    "converter_field p_inputCurrent data = Undefined \<Longrightarrow>
       texts (ingest_converter data pg) ''input-current'' = texts pg ''input-current''"
    "converter_field p_outputCurrent data = Undefined \<Longrightarrow>
       texts (ingest_converter data pg) ''output-current'' = texts pg ''output-current''"
    "converter_field p_outputPower data = Undefined \<Longrightarrow>
       texts (ingest_converter data pg) ''output-power'' = texts pg ''output-power''"
    "converter_field p_dutyCycle data = Undefined \<Longrightarrow>
       texts (ingest_converter data pg) ''duty-cycle'' = texts pg ''duty-cycle''"
    "converter_field p_outputVoltage data = Undefined \<Longrightarrow>
       texts (ingest_converter data pg) ''voltage-display'' = texts pg ''voltage-display''"
    "converter_field p_outputVoltage data = Undefined \<Longrightarrow>
       voltageGauge (ingest_converter data pg) = voltageGauge pg"
    "converter_field p_efficiency data = Undefined \<Longrightarrow>
       texts (ingest_converter data pg) ''efficiency-display'' = texts pg ''efficiency-display''"
    "converter_field p_efficiency data = Undefined \<Longrightarrow>
       efficiencyGauge (ingest_converter data pg) = efficiencyGauge pg"
    by blast+
qed

lemma ingest_subfields_skipped:
  "(converter_field p_inputVoltage data = Undefined \<longrightarrow>
      texts (page (updateDashboardWithRealData date_now clock data st)) ''input-voltage'' =
        texts (page st) ''input-voltage'') \<and>
   (converter_field p_inputCurrent data = Undefined \<longrightarrow>
      texts (page (updateDashboardWithRealData date_now clock data st)) ''input-current'' =
        texts (page st) ''input-current'') \<and>
   (converter_field p_outputCurrent data = Undefined \<longrightarrow>
      texts (page (updateDashboardWithRealData date_now clock data st)) ''output-current'' =
        texts (page st) ''output-current'') \<and>
   (converter_field p_outputPower data = Undefined \<longrightarrow>
      texts (page (updateDashboardWithRealData date_now clock data st)) ''output-power'' =
        texts (page st) ''output-power'') \<and>
   (converter_field p_dutyCycle data = Undefined \<longrightarrow>
      texts (page (updateDashboardWithRealData date_now clock data st)) ''duty-cycle'' =
        texts (page st) ''duty-cycle'') \<and>
   (converter_field p_outputVoltage data = Undefined \<longrightarrow>
      voltageGauge (page (updateDashboardWithRealData date_now clock data st)) =
        voltageGauge (page st) \<and>
      texts (page (updateDashboardWithRealData date_now clock data st)) ''voltage-display'' =
        texts (page st) ''voltage-display'') \<and>
   (converter_field p_efficiency data = Undefined \<longrightarrow>
      efficiencyGauge (page (updateDashboardWithRealData date_now clock data st)) =
        efficiencyGauge (page st) \<and>
      texts (page (updateDashboardWithRealData date_now clock data st)) ''efficiency-display'' =
        texts (page st) ''efficiency-display'')"
  by (simp add: page_ingest frame_ingest ingest_converter_field_skipped)

text \<open>
  C10, as stated: an absent field is never replaced by a fixed default, the chart-point
  update included. It fails on the payload with no field at all: both scripts append a
  chart point with generation 0 and consumption 0, labelled with the current time.
\<close>

theorem ingest_chart_default_counterexample:
  "data_generation empty_payload = Undefined \<and>
   data_consumption empty_payload = Undefined \<and>
   chartData (updateDashboardWithRealData 1000 2000 empty_payload demo_dashboard) =
     \<lparr>labels = [[HourMinute 1000]], chart_generation = [0], chart_consumption = [0]\<rparr> \<and>
   map_sum snd chartData (updateDashboardWithRealData_baseline 1000 empty_payload demo_dashboard) =
     Inr \<lparr>labels = [[HourMinute 1000]], chart_generation = [0], chart_consumption = [0]\<rparr>"
proof -
  have e: "data_generation empty_payload = Undefined" "data_consumption empty_payload = Undefined"
    "data_batteryLevel empty_payload = Undefined" "data_efficiency empty_payload = Undefined"
    "data_timestamp empty_payload = Undefined"
    by (simp_all add: empty_payload_def)
  have c: "updateChartData 1000 0 0 (chartData demo_dashboard) =
      \<lparr>labels = [[HourMinute 1000]], chart_generation = [0], chart_consumption = [0]\<rparr>"
    by (simp add: demo_dashboard_def initial_chartData_def updateChartData_def Let_def CONFIG_def)
  show ?thesis
    by (simp add: e chart_ingest baseline_all_absent or_default_def c)
qed

text \<open>
  C10, amended: for a field of the payload that is absent (\<open>undefined\<close>), the update of
  its card, bar, gauge or badge is skipped and the page keeps what it showed there. In
  the converter-aware script this holds for a top-level field, for the converter object
  and for a field of a converter object that is there; in the baseline script, which
  handles generation, consumption, battery level and efficiency only, for each of these
  four. The chart-point update is not skipped: a call that completes has appended
  exactly one chart point, in which an absent generation or consumption counts as 0 and
  an absent timestamp as the current time. The call of the converter-aware script always
  completes. The call of the baseline script completes when generation and consumption
  are absent or numbers and the efficiency is absent or its element is on the page;
  otherwise it stops before the chart is touched.
\<close>

theorem ingest_skips_absent_fields_chart_defaults:
  "(data_generation data = Undefined \<longrightarrow>
      texts (page (updateDashboardWithRealData date_now clock data st)) ''generation-value'' =
        texts (page st) ''generation-value'' \<and>
      point_generation (chartDataPoint date_now data) = 0) \<and>
   (data_consumption data = Undefined \<longrightarrow>
      texts (page (updateDashboardWithRealData date_now clock data st)) ''consumption-value'' =
        texts (page st) ''consumption-value'' \<and>
      point_consumption (chartDataPoint date_now data) = 0) \<and>
   (data_batteryLevel data = Undefined \<longrightarrow>
      texts (page (updateDashboardWithRealData date_now clock data st)) ''storage-value'' =
        texts (page st) ''storage-value'' \<and>
      batteryFill (page (updateDashboardWithRealData date_now clock data st)) = batteryFill (page st)) \<and>
   (data_efficiency data = Undefined \<longrightarrow>
      texts (page (updateDashboardWithRealData date_now clock data st)) ''efficiency-value'' =
        texts (page st) ''efficiency-value'') \<and>
   (data_converter data = Undefined \<longrightarrow>
      voltageGauge (page (updateDashboardWithRealData date_now clock data st)) =
        voltageGauge (page st) \<and>
      efficiencyGauge (page (updateDashboardWithRealData date_now clock data st)) =
        efficiencyGauge (page st) \<and>
      map (texts (page (updateDashboardWithRealData date_now clock data st)))
        [''input-voltage'', ''input-current'', ''output-current'', ''output-power'', ''duty-cycle'',
         ''voltage-display'', ''efficiency-display''] =
      map (texts (page st))
        [''input-voltage'', ''input-current'', ''output-current'', ''output-power'', ''duty-cycle'',
         ''voltage-display'', ''efficiency-display'']) \<and>
   (converter_field p_inputVoltage data = Undefined \<longrightarrow>
      texts (page (updateDashboardWithRealData date_now clock data st)) ''input-voltage'' =
        texts (page st) ''input-voltage'') \<and>
   (converter_field p_inputCurrent data = Undefined \<longrightarrow>
      texts (page (updateDashboardWithRealData date_now clock data st)) ''input-current'' =
        texts (page st) ''input-current'') \<and>
   (converter_field p_outputCurrent data = Undefined \<longrightarrow>
      texts (page (updateDashboardWithRealData date_now clock data st)) ''output-current'' =
        texts (page st) ''output-current'') \<and>
   (converter_field p_outputPower data = Undefined \<longrightarrow>
      texts (page (updateDashboardWithRealData date_now clock data st)) ''output-power'' =
        texts (page st) ''output-power'') \<and>
   (converter_field p_dutyCycle data = Undefined \<longrightarrow>
      texts (page (updateDashboardWithRealData date_now clock data st)) ''duty-cycle'' =
        texts (page st) ''duty-cycle'') \<and>
   (converter_field p_outputVoltage data = Undefined \<longrightarrow>
      voltageGauge (page (updateDashboardWithRealData date_now clock data st)) =
        voltageGauge (page st) \<and>
      texts (page (updateDashboardWithRealData date_now clock data st)) ''voltage-display'' =
        texts (page st) ''voltage-display'') \<and>
   (converter_field p_efficiency data = Undefined \<longrightarrow>
      efficiencyGauge (page (updateDashboardWithRealData date_now clock data st)) =
        efficiencyGauge (page st) \<and>
      texts (page (updateDashboardWithRealData date_now clock data st)) ''efficiency-display'' =
        texts (page st) ''efficiency-display'') \<and>
   (data_systemStatus data = Undefined \<longrightarrow>
      systemStatus (page (updateDashboardWithRealData date_now clock data st)) =
        systemStatus (page st)) \<and>
   (data_timestamp data = Undefined \<longrightarrow> point_timestamp (chartDataPoint date_now data) = date_now) \<and>
   chartData (updateDashboardWithRealData date_now clock data st) =
     updateChartData (point_timestamp (chartDataPoint date_now data))
       (point_generation (chartDataPoint date_now data))
       (point_consumption (chartDataPoint date_now data)) (chartData st) \<and>
   systemAlerts (updateDashboardWithRealData date_now clock data st) = systemAlerts st \<and>
   (data_generation data = Undefined \<and> data_consumption data = Undefined \<and>
    data_batteryLevel data = Undefined \<and> data_efficiency data = Undefined \<longrightarrow>
      updateDashboardWithRealData_baseline date_now data st =
        Inr (st\<lparr>chartData :=
               updateChartData (point_timestamp (chartDataPoint date_now data)) 0 0 (chartData st)\<rparr>)) \<and>
   (data_generation data = Undefined \<longrightarrow>
      texts (page (final_state (updateDashboardWithRealData_baseline date_now data st)))
        ''generation-value'' = texts (page st) ''generation-value'') \<and>
   (data_consumption data = Undefined \<longrightarrow>
      texts (page (final_state (updateDashboardWithRealData_baseline date_now data st)))
        ''consumption-value'' = texts (page st) ''consumption-value'') \<and>
   (data_batteryLevel data = Undefined \<longrightarrow>
      texts (page (final_state (updateDashboardWithRealData_baseline date_now data st)))
        ''storage-value'' = texts (page st) ''storage-value'' \<and>
      batteryFill (page (final_state (updateDashboardWithRealData_baseline date_now data st))) =
        batteryFill (page st)) \<and>
   (data_efficiency data = Undefined \<longrightarrow>
      texts (page (final_state (updateDashboardWithRealData_baseline date_now data st)))
        ''efficiency-value'' = texts (page st) ''efficiency-value'') \<and>
   isl (updateDashboardWithRealData_baseline date_now data st) =
     (data_generation data = Null \<or> data_consumption data = Null \<or>
      (data_efficiency data \<noteq> Undefined \<and> ''efficiency-value'' \<notin> dom (texts (page st)))) \<and>
   chartData (final_state (updateDashboardWithRealData_baseline date_now data st)) =
     (if isl (updateDashboardWithRealData_baseline date_now data st) then chartData st
      else updateChartData (point_timestamp (chartDataPoint date_now data))
             (point_generation (chartDataPoint date_now data))
             (point_consumption (chartDataPoint date_now data)) (chartData st)) \<and>
   systemAlerts (final_state (updateDashboardWithRealData_baseline date_now data st)) =
     systemAlerts st"
proof -
  note sub = ingest_subfields_skipped [of data date_now clock st]
  have c0: "(data_generation data = Undefined \<longrightarrow>
    texts (page (updateDashboardWithRealData date_now clock data st)) ''generation-value'' =
    texts (page st) ''generation-value'' \<and>
    point_generation (chartDataPoint date_now data) = 0)"
    using ingest_generation_skipped [of data date_now clock st]
    by (simp add: chartDataPoint_def or_default_def)
  have c1: "(data_consumption data = Undefined \<longrightarrow>
    texts (page (updateDashboardWithRealData date_now clock data st)) ''consumption-value'' =
    texts (page st) ''consumption-value'' \<and>
    point_consumption (chartDataPoint date_now data) = 0)"
    using ingest_consumption_skipped [of data date_now clock st]
    by (simp add: chartDataPoint_def or_default_def)
  have c2: "(data_batteryLevel data = Undefined \<longrightarrow>
    texts (page (updateDashboardWithRealData date_now clock data st)) ''storage-value'' =
    texts (page st) ''storage-value'' \<and>
    batteryFill (page (updateDashboardWithRealData date_now clock data st)) = batteryFill (page st))"
    using ingest_batteryLevel_skipped [of data date_now clock st] by simp
  have c3: "(data_efficiency data = Undefined \<longrightarrow>
    texts (page (updateDashboardWithRealData date_now clock data st)) ''efficiency-value'' =
    texts (page st) ''efficiency-value'')"
    using ingest_efficiency_skipped [of data date_now clock st] by simp
  have c4: "(data_converter data = Undefined \<longrightarrow>
    voltageGauge (page (updateDashboardWithRealData date_now clock data st)) =
    voltageGauge (page st) \<and>
    efficiencyGauge (page (updateDashboardWithRealData date_now clock data st)) =
    efficiencyGauge (page st) \<and>
    map (texts (page (updateDashboardWithRealData date_now clock data st)))
    [''input-voltage'', ''input-current'', ''output-current'', ''output-power'', ''duty-cycle'',
    ''voltage-display'', ''efficiency-display''] =
    map (texts (page st))
    [''input-voltage'', ''input-current'', ''output-current'', ''output-power'', ''duty-cycle'',
    ''voltage-display'', ''efficiency-display''])"
    using ingest_converter_skipped [of data date_now clock st] by simp
  have c5: "(converter_field p_inputVoltage data = Undefined \<longrightarrow>
    texts (page (updateDashboardWithRealData date_now clock data st)) ''input-voltage'' =
    texts (page st) ''input-voltage'')"
    by (rule sub [THEN conjunct1])
  have c6: "(converter_field p_inputCurrent data = Undefined \<longrightarrow>
    texts (page (updateDashboardWithRealData date_now clock data st)) ''input-current'' =
    texts (page st) ''input-current'')"
    by (rule sub [THEN conjunct2, THEN conjunct1])
  have c7: "(converter_field p_outputCurrent data = Undefined \<longrightarrow>
    texts (page (updateDashboardWithRealData date_now clock data st)) ''output-current'' =
    texts (page st) ''output-current'')"
    by (rule sub [THEN conjunct2, THEN conjunct2, THEN conjunct1])
  have c8: "(converter_field p_outputPower data = Undefined \<longrightarrow>
    texts (page (updateDashboardWithRealData date_now clock data st)) ''output-power'' =
    texts (page st) ''output-power'')"
    by (rule sub [THEN conjunct2, THEN conjunct2, THEN conjunct2, THEN conjunct1])
  have c9: "(converter_field p_dutyCycle data = Undefined \<longrightarrow>
    texts (page (updateDashboardWithRealData date_now clock data st)) ''duty-cycle'' =
    texts (page st) ''duty-cycle'')"
    by (rule sub [THEN conjunct2, THEN conjunct2, THEN conjunct2, THEN conjunct2, THEN conjunct1])
  have c10: "(converter_field p_outputVoltage data = Undefined \<longrightarrow>
    voltageGauge (page (updateDashboardWithRealData date_now clock data st)) =
    voltageGauge (page st) \<and>
    texts (page (updateDashboardWithRealData date_now clock data st)) ''voltage-display'' =
    texts (page st) ''voltage-display'')"
    by (rule sub [THEN conjunct2, THEN conjunct2, THEN conjunct2, THEN conjunct2, THEN conjunct2, THEN conjunct1])
  have c11: "(converter_field p_efficiency data = Undefined \<longrightarrow>
    efficiencyGauge (page (updateDashboardWithRealData date_now clock data st)) =
    efficiencyGauge (page st) \<and>
    texts (page (updateDashboardWithRealData date_now clock data st)) ''efficiency-display'' =
    texts (page st) ''efficiency-display'')"
    by (rule sub [THEN conjunct2, THEN conjunct2, THEN conjunct2, THEN conjunct2, THEN conjunct2, THEN conjunct2])
  have c12: "(data_systemStatus data = Undefined \<longrightarrow>
    systemStatus (page (updateDashboardWithRealData date_now clock data st)) =
    systemStatus (page st))"
    using ingest_systemStatus_skipped [of data date_now clock st] by simp
  have c13: "(data_timestamp data = Undefined \<longrightarrow> point_timestamp (chartDataPoint date_now data) = date_now)"
    by (simp add: chartDataPoint_def or_default_def)
  have c14: "chartData (updateDashboardWithRealData date_now clock data st) =
    updateChartData (point_timestamp (chartDataPoint date_now data))
    (point_generation (chartDataPoint date_now data))
    (point_consumption (chartDataPoint date_now data)) (chartData st)"
    by (simp add: chart_ingest chartDataPoint_def)
  have c15: "systemAlerts (updateDashboardWithRealData date_now clock data st) = systemAlerts st"
    unfolding updateDashboardWithRealData_def Let_def by simp
  have c16: "(data_generation data = Undefined \<and> data_consumption data = Undefined \<and>
    data_batteryLevel data = Undefined \<and> data_efficiency data = Undefined \<longrightarrow>
    updateDashboardWithRealData_baseline date_now data st =
    Inr (st\<lparr>chartData :=
    updateChartData (point_timestamp (chartDataPoint date_now data)) 0 0 (chartData st)\<rparr>))"
    using baseline_all_absent [of data date_now st] by (simp add: chartDataPoint_def)
  have c17: "(data_generation data = Undefined \<longrightarrow>
    texts (page (final_state (updateDashboardWithRealData_baseline date_now data st)))
    ''generation-value'' = texts (page st) ''generation-value'')"
    using baseline_generation_skipped [of data date_now st] by simp
  have c18: "(data_consumption data = Undefined \<longrightarrow>
    texts (page (final_state (updateDashboardWithRealData_baseline date_now data st)))
    ''consumption-value'' = texts (page st) ''consumption-value'')"
    using baseline_consumption_skipped [of data date_now st] by simp
  have c19: "(data_batteryLevel data = Undefined \<longrightarrow>
    texts (page (final_state (updateDashboardWithRealData_baseline date_now data st)))
    ''storage-value'' = texts (page st) ''storage-value'' \<and>
    batteryFill (page (final_state (updateDashboardWithRealData_baseline date_now data st))) =
    batteryFill (page st))"
    using baseline_batteryLevel_skipped [of data date_now st] by simp
  have c20: "(data_efficiency data = Undefined \<longrightarrow>
    texts (page (final_state (updateDashboardWithRealData_baseline date_now data st)))
    ''efficiency-value'' = texts (page st) ''efficiency-value'')"
    using baseline_efficiency_skipped [of data date_now st] by simp
  have c21: "isl (updateDashboardWithRealData_baseline date_now data st) =
    (data_generation data = Null \<or> data_consumption data = Null \<or>
    (data_efficiency data \<noteq> Undefined \<and> ''efficiency-value'' \<notin> dom (texts (page st))))"
    by (rule baseline_completes)
  have c22: "chartData (final_state (updateDashboardWithRealData_baseline date_now data st)) =
    (if isl (updateDashboardWithRealData_baseline date_now data st) then chartData st
    else updateChartData (point_timestamp (chartDataPoint date_now data))
    (point_generation (chartDataPoint date_now data))
    (point_consumption (chartDataPoint date_now data)) (chartData st))"
    by (rule baseline_chart)
  have c23: "systemAlerts (final_state (updateDashboardWithRealData_baseline date_now data st)) =
    systemAlerts st"
    by (rule baseline_alerts)
  show ?thesis
    by (intro conjI) (rule c0 c1 c2 c3 c4 c5 c6 c7 c8 c9 c10 c11 c12 c13 c14 c15 c16 c17 c18 c19 c20 c21 c22 c23)+
qed

theorem ingest_skips_absent_fields_chart_defaults_witness:
  "data_generation empty_payload = Undefined \<and> data_consumption empty_payload = Undefined \<and>
   data_batteryLevel empty_payload = Undefined \<and> data_efficiency empty_payload = Undefined \<and>
   data_converter empty_payload = Undefined \<and> data_systemStatus empty_payload = Undefined \<and>
   data_timestamp empty_payload = Undefined \<and>
   converter_field p_inputVoltage empty_payload = Undefined \<and>
   converter_field p_inputCurrent empty_payload = Undefined \<and>
   converter_field p_outputCurrent empty_payload = Undefined \<and>
   converter_field p_outputPower empty_payload = Undefined \<and>
   converter_field p_dutyCycle empty_payload = Undefined \<and>
   converter_field p_outputVoltage empty_payload = Undefined \<and>
   converter_field p_efficiency empty_payload = Undefined \<and>
   texts (page (updateDashboardWithRealData 1000 2000 empty_payload demo_dashboard)) ''generation-value'' =
     Some [] \<and>
   systemStatus (page (updateDashboardWithRealData 1000 2000 empty_payload demo_dashboard)) =
     Some \<lparr>inactive = False, status_text = ''ACTIVE''\<rparr> \<and>
   point_generation (chartDataPoint 1000 empty_payload) = 0 \<and>
   point_timestamp (chartDataPoint 1000 empty_payload) = 1000 \<and>
   chartData (updateDashboardWithRealData 1000 2000 empty_payload demo_dashboard) =
     updateChartData 1000 0 0 initial_chartData \<and>
   \<not> isl (updateDashboardWithRealData_baseline 1000 empty_payload demo_dashboard) \<and>
   chartData (final_state (updateDashboardWithRealData_baseline 1000 empty_payload demo_dashboard)) =
     updateChartData 1000 0 0 initial_chartData \<and>
   data_converter partial_payload \<noteq> Undefined \<and>
   converter_field p_inputVoltage partial_payload = Undefined \<and>
   converter_field p_efficiency partial_payload = Undefined \<and>
   texts (page (updateDashboardWithRealData 1000 2000 partial_payload demo_dashboard)) ''input-voltage'' =
     Some [] \<and>
   efficiencyGauge (page (updateDashboardWithRealData 1000 2000 partial_payload demo_dashboard)) =
     Some (Val (942 / 10))"
proof -
  note empty = ingest_skips_absent_fields_chart_defaults [of empty_payload 1000 2000 demo_dashboard]
  note partial = ingest_skips_absent_fields_chart_defaults [of partial_payload 1000 2000 demo_dashboard]
  have e: "data_generation empty_payload = Undefined" "data_consumption empty_payload = Undefined"
    "data_batteryLevel empty_payload = Undefined" "data_efficiency empty_payload = Undefined"
    "data_converter empty_payload = Undefined" "data_systemStatus empty_payload = Undefined"
    "data_timestamp empty_payload = Undefined"
    by (simp_all add: empty_payload_def)
  have ef: "converter_field f empty_payload = Undefined" for f
    by (simp add: converter_field_def e)
  have p: "data_converter partial_payload \<noteq> Undefined"
    "converter_field p_inputVoltage partial_payload = Undefined"
    "converter_field p_efficiency partial_payload = Undefined"
    by (simp_all add: converter_field_def partial_payload_def)
  have d: "texts (page demo_dashboard) ''generation-value'' = Some []"
    "texts (page demo_dashboard) ''input-voltage'' = Some []"
    "systemStatus (page demo_dashboard) = Some \<lparr>inactive = False, status_text = ''ACTIVE''\<rparr>"
    "efficiencyGauge (page demo_dashboard) = Some (Val (942 / 10))"
    "chartData demo_dashboard = initial_chartData"
    by (simp_all add: demo_dashboard_def demo_page_def)
  have e0: "(data_generation empty_payload = Undefined \<longrightarrow>
    texts (page (updateDashboardWithRealData 1000 2000 empty_payload demo_dashboard)) ''generation-value'' =
    texts (page demo_dashboard) ''generation-value'' \<and>
    point_generation (chartDataPoint 1000 empty_payload) = 0)"
    by (rule empty [THEN conjunct1])
  have e1: "(data_consumption empty_payload = Undefined \<longrightarrow>
    texts (page (updateDashboardWithRealData 1000 2000 empty_payload demo_dashboard)) ''consumption-value'' =
    texts (page demo_dashboard) ''consumption-value'' \<and>
    point_consumption (chartDataPoint 1000 empty_payload) = 0)"
    by (rule empty [THEN conjunct2, THEN conjunct1])
  have e12: "(data_systemStatus empty_payload = Undefined \<longrightarrow>
    systemStatus (page (updateDashboardWithRealData 1000 2000 empty_payload demo_dashboard)) =
    systemStatus (page demo_dashboard))"
    by (rule empty [THEN conjunct2, THEN conjunct2, THEN conjunct2, THEN conjunct2, THEN conjunct2, THEN conjunct2, THEN conjunct2, THEN conjunct2, THEN conjunct2, THEN conjunct2, THEN conjunct2, THEN conjunct2, THEN conjunct1])
  have e13: "(data_timestamp empty_payload = Undefined \<longrightarrow> point_timestamp (chartDataPoint 1000 empty_payload) = 1000)"
    by (rule empty [THEN conjunct2, THEN conjunct2, THEN conjunct2, THEN conjunct2, THEN conjunct2, THEN conjunct2, THEN conjunct2, THEN conjunct2, THEN conjunct2, THEN conjunct2, THEN conjunct2, THEN conjunct2, THEN conjunct2, THEN conjunct1])
  have e14: "chartData (updateDashboardWithRealData 1000 2000 empty_payload demo_dashboard) =
    updateChartData (point_timestamp (chartDataPoint 1000 empty_payload))
    (point_generation (chartDataPoint 1000 empty_payload))
    (point_consumption (chartDataPoint 1000 empty_payload)) (chartData demo_dashboard)"
    by (rule empty [THEN conjunct2, THEN conjunct2, THEN conjunct2, THEN conjunct2, THEN conjunct2, THEN conjunct2, THEN conjunct2, THEN conjunct2, THEN conjunct2, THEN conjunct2, THEN conjunct2, THEN conjunct2, THEN conjunct2, THEN conjunct2, THEN conjunct1])
  have e21: "isl (updateDashboardWithRealData_baseline 1000 empty_payload demo_dashboard) =
    (data_generation empty_payload = Null \<or> data_consumption empty_payload = Null \<or>
    (data_efficiency empty_payload \<noteq> Undefined \<and> ''efficiency-value'' \<notin> dom (texts (page demo_dashboard))))"
    by (rule empty [THEN conjunct2, THEN conjunct2, THEN conjunct2, THEN conjunct2, THEN conjunct2, THEN conjunct2, THEN conjunct2, THEN conjunct2, THEN conjunct2, THEN conjunct2, THEN conjunct2, THEN conjunct2, THEN conjunct2, THEN conjunct2, THEN conjunct2, THEN conjunct2, THEN conjunct2, THEN conjunct2, THEN conjunct2, THEN conjunct2, THEN conjunct2, THEN conjunct1])
  have e22: "chartData (final_state (updateDashboardWithRealData_baseline 1000 empty_payload demo_dashboard)) =
    (if isl (updateDashboardWithRealData_baseline 1000 empty_payload demo_dashboard) then chartData demo_dashboard
    else updateChartData (point_timestamp (chartDataPoint 1000 empty_payload))
    (point_generation (chartDataPoint 1000 empty_payload))
    (point_consumption (chartDataPoint 1000 empty_payload)) (chartData demo_dashboard))"
    by (rule empty [THEN conjunct2, THEN conjunct2, THEN conjunct2, THEN conjunct2, THEN conjunct2, THEN conjunct2, THEN conjunct2, THEN conjunct2, THEN conjunct2, THEN conjunct2, THEN conjunct2, THEN conjunct2, THEN conjunct2, THEN conjunct2, THEN conjunct2, THEN conjunct2, THEN conjunct2, THEN conjunct2, THEN conjunct2, THEN conjunct2, THEN conjunct2, THEN conjunct2, THEN conjunct1])
  have p5: "(converter_field p_inputVoltage partial_payload = Undefined \<longrightarrow>
    texts (page (updateDashboardWithRealData 1000 2000 partial_payload demo_dashboard)) ''input-voltage'' =
    texts (page demo_dashboard) ''input-voltage'')"
    by (rule partial [THEN conjunct2, THEN conjunct2, THEN conjunct2, THEN conjunct2, THEN conjunct2, THEN conjunct1])
  have p11: "(converter_field p_efficiency partial_payload = Undefined \<longrightarrow>
    efficiencyGauge (page (updateDashboardWithRealData 1000 2000 partial_payload demo_dashboard)) =
    efficiencyGauge (page demo_dashboard) \<and>
    texts (page (updateDashboardWithRealData 1000 2000 partial_payload demo_dashboard)) ''efficiency-display'' =
    texts (page demo_dashboard) ''efficiency-display'')"
    by (rule partial [THEN conjunct2, THEN conjunct2, THEN conjunct2, THEN conjunct2, THEN conjunct2, THEN conjunct2, THEN conjunct2, THEN conjunct2, THEN conjunct2, THEN conjunct2, THEN conjunct2, THEN conjunct1])
  have completes: "\<not> isl (updateDashboardWithRealData_baseline 1000 empty_payload demo_dashboard)"
    unfolding e21 by (simp add: e)
  from e0 e1 e12 e13 have shown:
    "texts (page (updateDashboardWithRealData 1000 2000 empty_payload demo_dashboard)) ''generation-value'' =
       Some []"
    "systemStatus (page (updateDashboardWithRealData 1000 2000 empty_payload demo_dashboard)) =
       Some \<lparr>inactive = False, status_text = ''ACTIVE''\<rparr>"
    "point_generation (chartDataPoint 1000 empty_payload) = 0"
    "point_consumption (chartDataPoint 1000 empty_payload) = 0"
    "point_timestamp (chartDataPoint 1000 empty_payload) = 1000"
    by (simp_all add: e d)
  have charts:
    "chartData (updateDashboardWithRealData 1000 2000 empty_payload demo_dashboard) =
       updateChartData 1000 0 0 initial_chartData"
    "chartData (final_state (updateDashboardWithRealData_baseline 1000 empty_payload demo_dashboard)) =
       updateChartData 1000 0 0 initial_chartData"
    unfolding e14 e22 by (simp_all add: completes shown d)
  from p5 p11 have skipped:
    "texts (page (updateDashboardWithRealData 1000 2000 partial_payload demo_dashboard)) ''input-voltage'' =
       Some []"
    "efficiencyGauge (page (updateDashboardWithRealData 1000 2000 partial_payload demo_dashboard)) =
       Some (Val (942 / 10))"
    by (simp_all add: p d)
  show ?thesis
    by (simp add: e ef p shown charts completes skipped)
qed

lemma partial_payload_voltage_shown:
  "voltageGauge (page (updateDashboardWithRealData 1000 2000 partial_payload demo_dashboard)) =
     Some (Val (241 / 10)) \<and>
   texts (page (updateDashboardWithRealData 1000 2000 partial_payload demo_dashboard)) ''voltage-display'' =
     Some [Num (241 / 10), Lit '' V'']"
proof -
  have c: "data_converter partial_payload =
      Val \<lparr>p_inputVoltage = Undefined, p_outputVoltage = Val (241 / 10),
        p_inputCurrent = Undefined, p_outputCurrent = Undefined, p_outputPower = Undefined,
        p_dutyCycle = Undefined, p_efficiency = Undefined\<rparr>"
    by (simp add: partial_payload_def)
  show ?thesis
    by (simp add: page_ingest frame_updateSystemTimestamp frame_ingest_systemStatus
        ingest_converter_Val [OF c] texts_updateConverterMetrics frame_ingest_efficiency
        frame_ingest_batteryLevel frame_ingest_consumption frame_ingest_generation
        dom_ingest demo_dashboard_def demo_page_def string_of_def)
qed

end
